theory Spec2Isabelle
  imports Main "HOL-Library.Word"
begin

unbundle bit_operations_syntax

section \<open>Bytes, files and \<open>struct.unpack\<close>\<close>

text \<open>
  A snapshot file is its content, a list of bytes. The Python file object keeps a read
  position; \<open>f.read(n)\<close> returns the (at most \<open>n\<close>) bytes from the position on and
  \<open>f.seek\<close> moves the position, also past the end of the file. Every read of the source is
  followed by an \<open>unpack\<close> that raises \<open>struct.error\<close> unless it got exactly the bytes it
  asked for, so the position after a successful read is the old one plus the size read.
\<close>

type_synonym byte = "8 word"

datatype error =
    NameError string
  | StructError
  | KeyError
  | ValueError
  | IndexError

definition f_read :: "byte list \<Rightarrow> nat \<Rightarrow> nat \<Rightarrow> byte list" where
  "f_read f pos n = take n (drop pos f)"

fun le_nat :: "byte list \<Rightarrow> nat" where
  "le_nat [] = 0"
| "le_nat (b # bs) = unat b + 256 * le_nat bs"

definition be_nat :: "byte list \<Rightarrow> nat" where
  "be_nat bs = le_nat (rev bs)"

text \<open>
  The byte order character of the source: \<open>'<'\<close> little-endian, \<open>'>'\<close> big-endian.
  The format \<open>'i'\<close> without a prefix is the native order, little-endian on the machines
  the reader runs on.
\<close>

definition decode_nat :: "char \<Rightarrow> byte list \<Rightarrow> nat" where
  "decode_nat s d = (if s = CHR ''>'' then be_nat d else le_nat d)"

definition to_signed32 :: "nat \<Rightarrow> int" where
  "to_signed32 n = (if n < 2 ^ 31 then int n else int n - 2 ^ 32)"

definition unpack_I :: "char \<Rightarrow> byte list \<Rightarrow> error + nat" where
  "unpack_I s d = (if length d = 4 then Inr (decode_nat s d) else Inl StructError)"

definition unpack_i :: "char \<Rightarrow> byte list \<Rightarrow> error + int" where
  "unpack_i s d = (if length d = 4 then Inr (to_signed32 (decode_nat s d)) else Inl StructError)"

text \<open>
  A double is kept as its 64 bits. The only operation the layout needs on a double is
  the comparison with zero, true of \<open>+0.0\<close> and \<open>-0.0\<close>: all bits but the sign are zero.
\<close>

definition unpack_d :: "char \<Rightarrow> byte list \<Rightarrow> error + 64 word" where
  "unpack_d s d = (if length d = 8 then Inr (word_of_nat (decode_nat s d)) else Inl StructError)"

definition double_eq_zero :: "64 word \<Rightarrow> bool" where
  "double_eq_zero w = (take_bit 63 w = 0)"

definition bind_err :: "error + 'a \<Rightarrow> ('a \<Rightarrow> error + 'b) \<Rightarrow> error + 'b" where
  "bind_err m k = (case m of Inl e \<Rightarrow> Inl e | Inr x \<Rightarrow> k x)"

text \<open>\<open>data = f.read(n); v = unpack(s + fmt, data)[0]\<close> at position \<open>pos\<close>.\<close>

definition rd_I :: "byte list \<Rightarrow> char \<Rightarrow> nat \<Rightarrow> error + (nat \<times> nat)" where
  "rd_I f s pos = bind_err (unpack_I s (f_read f pos 4)) (\<lambda>v. Inr (v, pos + 4))"

definition rd_i :: "byte list \<Rightarrow> char \<Rightarrow> nat \<Rightarrow> error + (int \<times> nat)" where
  "rd_i f s pos = bind_err (unpack_i s (f_read f pos 4)) (\<lambda>v. Inr (v, pos + 4))"

definition rd_d :: "byte list \<Rightarrow> char \<Rightarrow> nat \<Rightarrow> error + (64 word \<times> nat)" where
  "rd_d f s pos = bind_err (unpack_d s (f_read f pos 8)) (\<lambda>v. Inr (v, pos + 8))"

section \<open>The snapshot handle\<close>

datatype ptype = Gas | Halo | Disk | Bulge | Stars | Bndry

definition particle_keys :: "ptype list" where
  "particle_keys = [Gas, Halo, Disk, Bulge, Stars, Bndry]"

definition block_keys :: "string list" where
  "block_keys = [''header'', ''pos'', ''vel'', ''id'', ''mass'', ''u'', ''rho'', ''ne'', ''nh'',
     ''hsml'', ''sfr'', ''age'', ''metals'', ''pot'', ''accel'', ''endt'', ''tstp'', ''esn'',
     ''esncold'']"

definition element_keys :: "string list" where
  "element_keys = [''He'', ''C'', ''Mg'', ''O'', ''Fe'', ''Si'', ''H'', ''N'', ''Ne'', ''S'',
     ''Ca'', ''Zi'']"

text \<open>
  The attributes of a \<open>Simulation\<close> object. The dictionaries keyed by particle type
  hold exactly the six keys of \<open>particle_keys\<close> once the header is read, so they are total
  functions on \<open>ptype\<close>; \<open>block_sizes\<close> has a key only for the blocks whose flag is set,
  so it is a partial map. The entries of the \<open>flags\<close> dictionary are fields: the four
  given to the constructor are booleans, the six read from the header are integers, tested
  for truth (non-zero).
\<close>

record simulation =
  use_longids :: bool
  flags_pot :: bool
  flags_accel :: bool
  flags_endt :: bool
  flags_tstp :: bool
  swap :: char
  particle_numbers :: "ptype \<Rightarrow> nat"
  particle_mass :: "ptype \<Rightarrow> 64 word"
  cosmic_time :: "64 word"
  redshift :: "64 word"
  flags_sfr :: int
  flags_feedback :: int
  particle_total_numbers :: "ptype \<Rightarrow> nat"
  flags_cooling :: int
  file_number :: int
  box_size :: "64 word"
  omega_matter :: "64 word"
  omega_lambda :: "64 word"
  h :: "64 word"
  flags_stellar_age :: int
  flags_metals :: int
  particle_total_numbers_hw :: "ptype \<Rightarrow> int"
  flags_entr_ics :: int
  block_sizes :: "string \<rightharpoonup> nat"

section \<open>\<open>Simulation._file_structure\<close>\<close>

definition count_particles :: "simulation \<Rightarrow> nat \<times> nat" where
  "count_particles sim =
     fold (\<lambda>key (total_number, mass_number).
             let number = particle_numbers sim key in
             (total_number + number,
              if number \<noteq> 0 \<and> double_eq_zero (particle_mass sim key)
              then mass_number + number else mass_number))
          particle_keys (0, 0)"

definition file_structure :: "simulation \<Rightarrow> simulation" where
  "file_structure sim =
    (let (total_number, mass_number) = count_particles sim;
         data_size = 4;
         dims = 3;
         metals = length element_keys;
         size = total_number * data_size;
         size_space = size * dims;
         size_mass = mass_number * data_size;
         size_gas = particle_numbers sim Gas * data_size;
         size_stars = particle_numbers sim Stars * data_size;
         size_baryons = size_gas + size_stars;
         size_metals = size_baryons * metals;
         b0 = Map.empty(''header'' \<mapsto> 256, ''pos'' \<mapsto> size_space, ''vel'' \<mapsto> size_space);
         b1 = (if use_longids sim then b0(''id'' \<mapsto> size * 2) else b0(''id'' \<mapsto> size));
         b2 = b1(''mass'' \<mapsto> size_mass, ''u'' \<mapsto> size_gas, ''rho'' \<mapsto> size_gas);
         b3 = (if flags_cooling sim \<noteq> 0 then b2(''ne'' \<mapsto> size_gas, ''nh'' \<mapsto> size_gas) else b2);
         b4 = b3(''hsml'' \<mapsto> size_gas);
         b5 = (if flags_sfr sim \<noteq> 0 then b4(''sfr'' \<mapsto> size_gas) else b4);
         b6 = (if flags_stellar_age sim \<noteq> 0 then b5(''age'' \<mapsto> size_stars) else b5);
         b7 = (if flags_metals sim \<noteq> 0 then b6(''metals'' \<mapsto> size_metals) else b6);
         b8 = (if flags_pot sim then b7(''pot'' \<mapsto> size) else b7);
         b9 = (if flags_accel sim then b8(''accel'' \<mapsto> size_space) else b8);
         b10 = (if flags_endt sim then b9(''endt'' \<mapsto> size_gas) else b9);
         b11 = (if flags_tstp sim then b10(''tstp'' \<mapsto> size) else b10);
         b12 = (if flags_feedback sim \<noteq> 0
                then b11(''esn'' \<mapsto> size_baryons, ''esncold'' \<mapsto> size_baryons) else b11)
     in sim\<lparr>block_sizes := b12\<rparr>)"

section \<open>\<open>Simulation._read_header\<close>\<close>

text \<open>The loops \<open>for key in self.particle_keys: data = f.read(..); d[key] = unpack(..)\<close>.\<close>

fun rd_dict_I ::
  "byte list \<Rightarrow> char \<Rightarrow> ptype list \<Rightarrow> (ptype \<Rightarrow> nat) \<Rightarrow> nat \<Rightarrow> error + ((ptype \<Rightarrow> nat) \<times> nat)" where
  "rd_dict_I f s [] d pos = Inr (d, pos)"
| "rd_dict_I f s (key # keys) d pos =
     bind_err (rd_I f s pos) (\<lambda>(v, pos'). rd_dict_I f s keys (d(key := v)) pos')"

fun rd_dict_i ::
  "byte list \<Rightarrow> char \<Rightarrow> ptype list \<Rightarrow> (ptype \<Rightarrow> int) \<Rightarrow> nat \<Rightarrow> error + ((ptype \<Rightarrow> int) \<times> nat)" where
  "rd_dict_i f s [] d pos = Inr (d, pos)"
| "rd_dict_i f s (key # keys) d pos =
     bind_err (rd_i f s pos) (\<lambda>(v, pos'). rd_dict_i f s keys (d(key := v)) pos')"

fun rd_dict_d ::
  "byte list \<Rightarrow> char \<Rightarrow> ptype list \<Rightarrow> (ptype \<Rightarrow> 64 word) \<Rightarrow> nat
     \<Rightarrow> error + ((ptype \<Rightarrow> 64 word) \<times> nat)" where
  "rd_dict_d f s [] d pos = Inr (d, pos)"
| "rd_dict_d f s (key # keys) d pos =
     bind_err (rd_d f s pos) (\<lambda>(v, pos'). rd_dict_d f s keys (d(key := v)) pos')"

definition header_error :: error where
  "header_error = NameError ''Error reading header in file''"

text \<open>
  The 196 bytes of fields, read in the order of the source from position 4 on. The result is
  the handle with every header attribute assigned, and the position reached.
\<close>

definition read_fields :: "simulation \<Rightarrow> byte list \<Rightarrow> char \<Rightarrow> error + (simulation \<times> nat)" where
  "read_fields sim f s =
     bind_err (rd_dict_I f s particle_keys (\<lambda>_. 0) 4) (\<lambda>(pn, p1).
     bind_err (rd_dict_d f s particle_keys (\<lambda>_. 0) p1) (\<lambda>(pm, p2).
     bind_err (rd_d f s p2) (\<lambda>(v_time, p3).
     bind_err (rd_d f s p3) (\<lambda>(v_redshift, p4).
     bind_err (rd_i f s p4) (\<lambda>(v_sfr, p5).
     bind_err (rd_i f s p5) (\<lambda>(v_feedback, p6).
     bind_err (rd_dict_I f s particle_keys (\<lambda>_. 0) p6) (\<lambda>(ptn, p7).
     bind_err (rd_i f s p7) (\<lambda>(v_cooling, p8).
     bind_err (rd_i f s p8) (\<lambda>(v_file_number, p9).
     bind_err (rd_d f s p9) (\<lambda>(v_box, p10).
     bind_err (rd_d f s p10) (\<lambda>(v_om, p11).
     bind_err (rd_d f s p11) (\<lambda>(v_ol, p12).
     bind_err (rd_d f s p12) (\<lambda>(v_h, p13).
     bind_err (rd_i f s p13) (\<lambda>(v_age, p14).
     bind_err (rd_i f s p14) (\<lambda>(v_metals, p15).
     bind_err (rd_dict_i f s particle_keys (\<lambda>_. 0) p15) (\<lambda>(hw, p16).
     bind_err (rd_i f s p16) (\<lambda>(v_entr, p17).
       Inr (sim\<lparr>swap := s, particle_numbers := pn, particle_mass := pm,
                cosmic_time := v_time, redshift := v_redshift, flags_sfr := v_sfr,
                flags_feedback := v_feedback, particle_total_numbers := ptn,
                flags_cooling := v_cooling, file_number := v_file_number,
                box_size := v_box, omega_matter := v_om, omega_lambda := v_ol, h := v_h,
                flags_stellar_age := v_age, flags_metals := v_metals,
                particle_total_numbers_hw := hw, flags_entr_ics := v_entr\<rparr>,
            p17))))))))))))))))))"

definition read_header :: "simulation \<Rightarrow> byte list \<Rightarrow> error + simulation" where
  "read_header sim f =
    (let size_swaped = (65536 :: int);
         size_checked = (256 :: int);
         size_used = (196 :: int);
         size_unused = size_checked - size_used
     in bind_err (unpack_i (CHR ''<'') (f_read f 0 4)) (\<lambda>size.
        if size \<noteq> size_swaped \<and> size \<noteq> size_checked then Inl header_error
        else
          let s = (if size = size_swaped then CHR ''>'' else CHR ''<'') in
          bind_err (read_fields sim f s) (\<lambda>(sim1, p).
          let p' = p + length (f_read f p (nat size_unused)) in
          bind_err (unpack_i s (f_read f p' 4)) (\<lambda>size'.
          if size' \<noteq> size_checked then Inl header_error
          else Inr (file_structure sim1)))))"

section \<open>\<open>Simulation._file_check\<close>\<close>

text \<open>
  The loop over \<open>block_keys\<close>, from position 0: a block whose key is in \<open>block_sizes\<close>
  with a size above zero has a 4-byte size before and after its payload; a key that is
  missing or has size zero is passed over without reading anything.
\<close>

definition block_error :: "string \<Rightarrow> error" where
  "block_error key = NameError (''Error in block: '' @ key)"

fun file_check_loop ::
  "(string \<rightharpoonup> nat) \<Rightarrow> char \<Rightarrow> byte list \<Rightarrow> string list \<Rightarrow> nat \<Rightarrow> error + nat" where
  "file_check_loop bs s f [] pos = Inr pos"
| "file_check_loop bs s f (key # keys) pos =
     (case bs key of
        None \<Rightarrow> file_check_loop bs s f keys pos
      | Some sz \<Rightarrow>
          if sz > 0 then
            bind_err (rd_I f s pos) (\<lambda>(size_check, p1).
            if size_check \<noteq> sz then Inl (block_error key)
            else bind_err (rd_I f s (p1 + sz)) (\<lambda>(size_check, p2).
                 if size_check \<noteq> sz then Inl (block_error key)
                 else file_check_loop bs s f keys p2))
          else file_check_loop bs s f keys pos)"

definition file_check :: "simulation \<Rightarrow> byte list \<Rightarrow> error + unit" where
  "file_check sim f =
     bind_err (file_check_loop (block_sizes sim) (swap sim) f block_keys 0) (\<lambda>_. Inr ())"

text \<open>
  \<open>Simulation.__init__\<close>: the constructor arguments, then the header, then the check of
  the file unless it is skipped. The header attributes of the starting record are never
  read: \<open>read_header\<close> assigns each of them.
\<close>

definition blank :: "bool \<Rightarrow> bool \<Rightarrow> bool \<Rightarrow> bool \<Rightarrow> bool \<Rightarrow> simulation" where
  "blank pot accel endt tstp longids =
     \<lparr>use_longids = longids, flags_pot = pot, flags_accel = accel, flags_endt = endt,
      flags_tstp = tstp, swap = CHR ''<'', particle_numbers = (\<lambda>_. 0),
      particle_mass = (\<lambda>_. 0), cosmic_time = 0, redshift = 0, flags_sfr = 0,
      flags_feedback = 0, particle_total_numbers = (\<lambda>_. 0), flags_cooling = 0,
      file_number = 0, box_size = 0, omega_matter = 0, omega_lambda = 0, h = 0,
      flags_stellar_age = 0, flags_metals = 0, particle_total_numbers_hw = (\<lambda>_. 0),
      flags_entr_ics = 0, block_sizes = Map.empty\<rparr>"

definition Simulation_init ::
  "byte list \<Rightarrow> bool \<Rightarrow> bool \<Rightarrow> bool \<Rightarrow> bool \<Rightarrow> bool \<Rightarrow> bool \<Rightarrow> error + simulation" where
  "Simulation_init f pot accel endt tstp skip_file_check longids =
     bind_err (read_header (blank pot accel endt tstp longids) f) (\<lambda>sim.
     if \<not> skip_file_check then bind_err (file_check sim f) (\<lambda>_. Inr sim) else Inr sim)"

section \<open>\<open>Simulation._compute_offset\<close>\<close>

text \<open>
  The local dictionary \<open>particle_number\<close> (the particle types the block spans, with their
  counts) and the factor \<open>dim\<close>, as the chain of \<open>if\<close>/\<open>elif\<close> over the block type
  builds them.
\<close>

definition mass_domain :: "simulation \<Rightarrow> (ptype \<rightharpoonup> nat)" where
  "mass_domain sim =
     fold (\<lambda>key d. if double_eq_zero (particle_mass sim key)
                    then (if particle_numbers sim key \<noteq> 0
                          then d(key \<mapsto> particle_numbers sim key) else d)
                    else d)
          particle_keys Map.empty"

definition block_domain :: "simulation \<Rightarrow> string \<Rightarrow> (ptype \<rightharpoonup> nat) \<times> nat" where
  "block_domain sim block_type =
    (if block_type \<in> set [''id'', ''pos'', ''vel'', ''accel'', ''pot'', ''tstp''] then
       (\<lambda>key. Some (particle_numbers sim key),
        if block_type \<in> set [''id''] \<and> use_longids sim then 2
        else if block_type \<in> set [''pos'', ''vel'', ''accel''] then 3 else 1)
     else if block_type \<in> set [''u'', ''rho'', ''ne'', ''nh'', ''hsml'', ''sfr'', ''endt''] then
       (Map.empty(Gas \<mapsto> particle_numbers sim Gas), 1)
     else if block_type \<in> set [''esn'', ''esncold'', ''metals''] then
       (Map.empty(Gas \<mapsto> particle_numbers sim Gas, Stars \<mapsto> particle_numbers sim Stars),
        if block_type \<in> set [''metals''] then length element_keys else 1)
     else if block_type \<in> set [''mass''] then (mass_domain sim, 1)
     else if block_type \<in> set [''age''] then
       (Map.empty(Stars \<mapsto> particle_numbers sim Stars), 1)
     else (Map.empty, 1))"

fun index_of :: "'a list \<Rightarrow> 'a \<Rightarrow> nat option" where
  "index_of [] x = None"
| "index_of (y # ys) x = (if y = x then Some 0 else map_option Suc (index_of ys x))"

definition sum_present :: "(ptype \<rightharpoonup> nat) \<Rightarrow> ptype list \<Rightarrow> nat" where
  "sum_present particle_number keys =
     fold (\<lambda>key acc. case particle_number key of Some n \<Rightarrow> acc + n | None \<Rightarrow> acc) keys 0"

definition compute_offset :: "simulation \<Rightarrow> string \<Rightarrow> ptype \<Rightarrow> error + (nat \<times> nat \<times> nat)" where
  "compute_offset sim block_type particle_type =
    (let (particle_number, dim) = block_domain sim block_type in
     case index_of particle_keys particle_type of
       None \<Rightarrow> Inl ValueError
     | Some order \<Rightarrow>
        let offset = sum_present particle_number (take order particle_keys);
            remainder = sum_present particle_number (drop (order + 1) particle_keys);
            dim = dim * 4
        in (case particle_number particle_type of
              None \<Rightarrow> Inl KeyError
            | Some n \<Rightarrow> Inr (offset * dim, n * dim, remainder * dim)))"

section \<open>\<open>Simulation.read_block\<close>\<close>

text \<open>
  The offset of the block in the file: \<open>size + 8\<close> for every key before the block in
  \<open>block_keys\<close> that \<open>block_sizes\<close> holds (\<open>sz\<close> is the source's \<open>size\<close>); the \<open>KeyError\<close> of a key it does not hold is
  caught and passed.
\<close>

definition block_skip :: "(string \<rightharpoonup> nat) \<Rightarrow> string list \<Rightarrow> nat" where
  "block_skip bs keys =
     fold (\<lambda>key skip. case bs key of Some sz \<Rightarrow> skip + (sz + 8) | None \<Rightarrow> skip) keys 0"

definition read_error :: "string \<Rightarrow> error" where
  "read_error block_type = NameError (''Error reading block: '' @ block_type)"

text \<open>
  The body of \<open>with open(self.name, 'rb') as f\<close>: \<open>sim\<close> is the handle after the header
  was read again, \<open>s\<close> the byte order the handle had before. The result is \<open>data_block\<close>.
\<close>

definition read_payload ::
  "simulation \<Rightarrow> char \<Rightarrow> byte list \<Rightarrow> string \<Rightarrow> ptype \<Rightarrow> error + byte list" where
  "read_payload sim s f block_type particle_type =
    (case block_sizes sim block_type of
       None \<Rightarrow> Inl KeyError
     | Some sz \<Rightarrow>
        (case index_of block_keys block_type of
           None \<Rightarrow> Inl ValueError
         | Some order \<Rightarrow>
            let skip = block_skip (block_sizes sim) (take order block_keys) in
            bind_err (rd_I f s skip) (\<lambda>(size_check, p1).
            if size_check \<noteq> sz then Inl (read_error block_type)
            else bind_err (compute_offset sim block_type particle_type)
              (\<lambda>(offset, read_size, remainder).
                 let p2 = p1 + offset;
                     data_block = f_read f p2 read_size;
                     p3 = p2 + length data_block;
                     p4 = p3 + remainder
                 in bind_err (rd_I f s p4) (\<lambda>(size_check, p5).
                    if size_check \<noteq> sz then Inl (read_error block_type)
                    else Inr data_block)))))"

text \<open>
  \<open>numpy.fromstring(data, dtype)\<close>: the elements of \<open>itemsize\<close> bytes each, in the byte
  order \<open>s\<close>; a \<open>ValueError\<close> when the length of the data is no multiple of the item size.
  An element is kept as the bits it was decoded from: a 4-byte float, or an unsigned
  integer of 4 or 8 bytes.
\<close>

datatype cell = F4 "32 word" | U4 "32 word" | U8 "64 word"

datatype dtype = Dt_f4 | Dt_u4 | Dt_u8

definition itemsize :: "dtype \<Rightarrow> nat" where
  "itemsize dt = (case dt of Dt_f4 \<Rightarrow> 4 | Dt_u4 \<Rightarrow> 4 | Dt_u8 \<Rightarrow> 8)"

definition decode_cell :: "char \<Rightarrow> dtype \<Rightarrow> byte list \<Rightarrow> cell" where
  "decode_cell s dt d =
     (case dt of Dt_f4 \<Rightarrow> F4 (word_of_nat (decode_nat s d))
               | Dt_u4 \<Rightarrow> U4 (word_of_nat (decode_nat s d))
               | Dt_u8 \<Rightarrow> U8 (word_of_nat (decode_nat s d)))"

function chunks :: "nat \<Rightarrow> 'a list \<Rightarrow> 'a list list" where
  "chunks n xs = (if n = 0 \<or> xs = [] then [] else take n xs # chunks n (drop n xs))"
  by pat_completeness auto
termination
  by (relation "measure (\<lambda>(n, xs). length xs)") auto

declare chunks.simps [simp del]

definition fromstring :: "char \<Rightarrow> dtype \<Rightarrow> byte list \<Rightarrow> error + cell list" where
  "fromstring s dt d =
     (if length d mod itemsize dt \<noteq> 0 then Inl ValueError
      else Inr (map (decode_cell s dt) (chunks (itemsize dt) d)))"

text \<open>
  An array is its shape and its elements in row-major order. Assigning a shape whose
  product is not the number of elements raises \<open>ValueError\<close>.
\<close>

record ndarray =
  shape :: "nat list"
  elems :: "cell list"

definition set_shape :: "cell list \<Rightarrow> nat list \<Rightarrow> error + ndarray" where
  "set_shape block sh =
     (if prod_list sh = length block then Inr \<lparr>shape = sh, elems = block\<rparr> else Inl ValueError)"

text \<open>
  From the decoded payload to the shaped array: lines 431 to 448 of the source. The list of
  the first test is the one of the source, whose third entry is \<open>acc\<close>.
\<close>

definition block_dtype :: "simulation \<Rightarrow> string \<Rightarrow> dtype" where
  "block_dtype sim block_type =
     (if block_type \<in> set [''id''] then (if use_longids sim then Dt_u8 else Dt_u4) else Dt_f4)"

definition block_shape :: "simulation \<Rightarrow> string \<Rightarrow> ptype \<Rightarrow> cell list \<Rightarrow> nat list" where
  "block_shape sim block_type particle_type block =
    (let ydim = particle_numbers sim particle_type in
     if block_type \<in> set [''pos'', ''vel'', ''acc''] then [ydim, 3]
     else if block_type \<in> set [''metals''] then [ydim, length element_keys]
     else [length block])"

definition block_columns :: "string \<Rightarrow> string list" where
  "block_columns block_type =
    (if block_type \<in> set [''pos'', ''vel'', ''accel''] then [''x'', ''y'', ''z'']
     else if block_type \<in> set [''metals''] then element_keys
     else [block_type])"

text \<open>
  \<open>read_array\<close> is \<open>read_block\<close> up to the assignment of the shape. It returns the array
  and the handle, whose header attributes were assigned again from the file; the byte order
  \<open>s\<close> used for the sizes and the payload is the one the handle had on entry.
\<close>

definition read_array ::
  "simulation \<Rightarrow> byte list \<Rightarrow> string \<Rightarrow> ptype \<Rightarrow> error + (ndarray \<times> simulation)" where
  "read_array sim f block_type particle_type =
    (let s = swap sim in
     bind_err (read_header sim f) (\<lambda>sim1.
     bind_err (read_payload sim1 s f block_type particle_type) (\<lambda>data_block.
     bind_err (fromstring s (block_dtype sim1 block_type) data_block) (\<lambda>block.
     bind_err (set_shape block (block_shape sim1 block_type particle_type block)) (\<lambda>arr.
       Inr (arr, sim1))))))"

text \<open>
  The result of \<open>read_block\<close>: a \<open>pandas.Series\<close> of identifiers for the block \<open>id\<close>, and
  for every other block a \<open>pandas.DataFrame\<close> with named columns, whose index holds the
  identifiers of the same particle type. The constructor \<open>DataFrame(block, columns, index)\<close>
  takes a one-dimensional array as one column and raises \<open>ValueError\<close> when the shape of
  the values is not (length of the index, number of columns).
\<close>

datatype frame =
    Series string "cell list"
  | DataFrame "string list" "cell list" "cell list list"

definition mk_DataFrame :: "ndarray \<Rightarrow> string list \<Rightarrow> cell list \<Rightarrow> error + frame" where
  "mk_DataFrame block cols idx =
    (let (nrows, ncols) = (case shape block of [m] \<Rightarrow> (m, 1) | [r, c] \<Rightarrow> (r, c) | _ \<Rightarrow> (0, 0))
     in if ncols \<noteq> length cols \<or> nrows \<noteq> length idx then Inl ValueError
        else Inr (DataFrame cols idx (chunks ncols (elems block))))"

text \<open>
  \<open>read_block(block_type, particle_type)\<close> with \<open>iter_files\<close> false. For a block other
  than \<open>id\<close> the source calls \<open>self.read_block("id", particle_type)\<close>; that inner call
  takes the branch of the identifier block, so it is \<open>read_array\<close> on the handle the outer
  call has left, and its series holds the elements of that array.
\<close>

definition read_block ::
  "simulation \<Rightarrow> byte list \<Rightarrow> string \<Rightarrow> ptype \<Rightarrow> error + (frame \<times> simulation)" where
  "read_block sim f block_type particle_type =
     bind_err (read_array sim f block_type particle_type) (\<lambda>(block, sim1).
     let columns = block_columns block_type in
     if block_type \<noteq> ''id'' then
       bind_err (read_array sim1 f ''id'' particle_type) (\<lambda>(ids, sim2).
       bind_err (mk_DataFrame block columns (elems ids)) (\<lambda>final_block.
         Inr (final_block, sim2)))
     else Inr (Series ''id'' (elems block), sim1))"

text \<open>What a result holds: its column names and its rows (a series has one column).\<close>

fun frame_columns :: "frame \<Rightarrow> string list" where
  "frame_columns (Series name v) = [name]"
| "frame_columns (DataFrame cols idx rows) = cols"

fun frame_rows :: "frame \<Rightarrow> cell list list" where
  "frame_rows (Series name v) = map (\<lambda>x. [x]) v"
| "frame_rows (DataFrame cols idx rows) = rows"

section \<open>\<open>Fof._read_header\<close> and \<open>Fof._load_catalogue\<close>\<close>

text \<open>
  A group catalogue is its fragment files: \<open>files i\<close> is the content of
  \<open>group_tab_NNN.i\<close>. \<open>numpy.fromfile(f, dtype="i4", count=1)[0]\<close> decodes four bytes as a
  signed integer in native order; when fewer than four bytes are left the array read is
  empty and the index \<open>[0]\<close> raises \<open>IndexError\<close>.
\<close>

definition fromfile_i4 :: "byte list \<Rightarrow> nat \<Rightarrow> error + (int \<times> nat)" where
  "fromfile_i4 f pos =
     (if pos + 4 \<le> length f then Inr (to_signed32 (le_nat (f_read f pos 4)), pos + 4)
      else Inl IndexError)"

definition Fof_read_header :: "byte list \<Rightarrow> error + (int \<times> int)" where
  "Fof_read_header f =
     bind_err (fromfile_i4 f 8) (\<lambda>(totngroups, p).
     bind_err (fromfile_i4 f p) (\<lambda>(ntask, p'). Inr (totngroups, ntask)))"

definition array_keys :: "string list" where
  "array_keys = [''grouplen'', ''groupoffset'', ''grouplentype'', ''groupmasstype'',
     ''groupcm'', ''groupsfr'']"

text \<open>
  The bytes of one row (one group) of each array, from the table \<open>data_types\<close>: 4-byte
  integers and floats, 8-byte floats for the masses, six particle types, three dimensions.
  An array is kept as its rows, a row as its bytes.
\<close>

definition row_size :: "string \<Rightarrow> nat" where
  "row_size key =
     (if key = ''grouplentype'' then 6 * 4
      else if key = ''groupmasstype'' then 6 * 8
      else if key = ''groupcm'' then 3 * 4
      else 4)"

text \<open>
  The loop \<open>for key in array_keys\<close> of one fragment with \<open>ngroups > 0\<close>.
  \<open>fromfile(f, dtype=dt, count=1)[0]\<close> reads the whole array of \<open>ngroups\<close> rows as one
  item, and raises \<open>IndexError\<close> when the file does not hold it. The first fragment with
  groups assigns \<open>value[key]\<close>, a later one appends to it.
\<close>

fun read_arrays ::
  "byte list \<Rightarrow> int \<Rightarrow> int \<Rightarrow> string list \<Rightarrow> nat \<Rightarrow> (string \<rightharpoonup> byte list list)
     \<Rightarrow> error + ((string \<rightharpoonup> byte list list) \<times> nat)" where
  "read_arrays f ngroups totngroups [] pos val = Inr (val, pos)"
| "read_arrays f ngroups totngroups (key # keys) pos val =
     (let nbytes = nat ngroups * row_size key in
      if pos + nbytes \<le> length f then
        let data = chunks (row_size key) (f_read f pos nbytes) in
        if totngroups = 0 then
          read_arrays f ngroups totngroups keys (pos + nbytes) (val(key \<mapsto> data))
        else (case val key of
                None \<Rightarrow> Inl KeyError
              | Some old \<Rightarrow>
                  read_arrays f ngroups totngroups keys (pos + nbytes) (val(key \<mapsto> old @ data)))
      else Inl IndexError)"

text \<open>
  The loop \<open>for i in range(self.ntask)\<close>; the state is \<open>self.ngroups\<close>, \<open>self.nids\<close>,
  \<open>totngroups\<close> and the dictionary \<open>value\<close>.
\<close>

fun load_fragments ::
  "(nat \<Rightarrow> byte list) \<Rightarrow> nat list
     \<Rightarrow> int list \<times> int list \<times> int \<times> (string \<rightharpoonup> byte list list)
     \<Rightarrow> error + (int list \<times> int list \<times> int \<times> (string \<rightharpoonup> byte list list))" where
  "load_fragments files [] st = Inr st"
| "load_fragments files (i # rest) (ngs, nis, totngroups, val) =
     (let f = files i in
      bind_err (fromfile_i4 f 0) (\<lambda>(ngroups, p1).
      bind_err (fromfile_i4 f p1) (\<lambda>(nids, p2).
        let p3 = p2 + 2 * 4 in
        if ngroups > 0 then
          bind_err (read_arrays f ngroups totngroups array_keys p3 val) (\<lambda>(val', p).
            load_fragments files rest (ngs @ [ngroups], nis @ [nids], totngroups + ngroups, val'))
        else load_fragments files rest (ngs @ [ngroups], nis @ [nids], totngroups, val))))"

text \<open>
  \<open>_load_catalogue\<close>: the fragments, then \<open>setattr(self, key, value[key])\<close> for every key
  of \<open>array_keys\<close>, which raises \<open>KeyError\<close> for a key that no fragment has assigned.
\<close>

record fof_catalogue =
  fof_ngroups :: "int list"
  fof_nids :: "int list"
  fof_arrays :: "string \<rightharpoonup> byte list list"

fun set_attributes ::
  "(string \<rightharpoonup> byte list list) \<Rightarrow> string list \<Rightarrow> (string \<rightharpoonup> byte list list)
     \<Rightarrow> error + (string \<rightharpoonup> byte list list)" where
  "set_attributes val [] attrs = Inr attrs"
| "set_attributes val (key # keys) attrs =
     (case val key of
        None \<Rightarrow> Inl KeyError
      | Some data \<Rightarrow> set_attributes val keys (attrs(key \<mapsto> data)))"

definition load_catalogue :: "int \<Rightarrow> (nat \<Rightarrow> byte list) \<Rightarrow> error + fof_catalogue" where
  "load_catalogue ntask files =
     bind_err (load_fragments files [0..<nat ntask] ([], [], 0, Map.empty))
       (\<lambda>(ngs, nis, totngroups, val).
     bind_err (set_attributes val array_keys Map.empty) (\<lambda>attrs.
       Inr \<lparr>fof_ngroups = ngs, fof_nids = nis, fof_arrays = attrs\<rparr>))"

text \<open>
  \<open>Fof.__init__\<close> up to the call of \<open>_load_ids\<close>: the header of fragment 0, then the
  catalogue. An exception of either leaves the constructor.
\<close>

definition Fof_init_catalogue :: "(nat \<Rightarrow> byte list) \<Rightarrow> error + fof_catalogue" where
  "Fof_init_catalogue files =
     bind_err (Fof_read_header (files 0)) (\<lambda>(totngroups, ntask). load_catalogue ntask files)"

section \<open>\<open>Subfind._load_ids\<close>\<close>


text \<open>
  The slice \<open>a[nmin:nmax]\<close> of Python: a negative bound counts from the end, and both
  bounds are clipped to the length.
\<close>

definition py_slice :: "'a list \<Rightarrow> int \<Rightarrow> int \<Rightarrow> 'a list" where
  "py_slice xs nmin nmax =
     (let n = int (length xs);
          lo = (if nmin < 0 then max (nmin + n) 0 else min nmin n);
          hi = (if nmax < 0 then max (nmax + n) 0 else min nmax n)
      in take (nat (hi - lo)) (drop (nat lo) xs))"

text \<open>
  The loop \<open>for sub in range(self.nsubhalos[0])\<close>. \<open>suboffset\<close> and \<open>sublen\<close> are arrays
  of 32-bit integers, so \<open>nmin + self.sublen[sub]\<close> is a 32-bit sum; an index past the end
  of either array raises \<open>IndexError\<close>.
\<close>

fun slice_subhalos ::
  "64 word list \<Rightarrow> 32 word list \<Rightarrow> 32 word list \<Rightarrow> nat list \<Rightarrow> error + 64 word list list" where
  "slice_subhalos all_ids suboffset sublen [] = Inr []"
| "slice_subhalos all_ids suboffset sublen (sub # subs) =
     (if sub < length suboffset \<and> sub < length sublen then
        let nmin = suboffset ! sub;
            nmax = nmin + sublen ! sub
        in bind_err (slice_subhalos all_ids suboffset sublen subs) (\<lambda>rest.
             Inr (py_slice all_ids (sint nmin) (sint nmax) # rest))
      else Inl IndexError)"


section \<open>Closed forms\<close>

text \<open>
  The header as a table of offsets, and the two counts of \<open>_file_structure\<close> as sums.
  They are proved equal to what the functions above compute.
\<close>

definition header_fields :: "byte list \<Rightarrow> char \<Rightarrow> simulation \<Rightarrow> simulation" where
  "header_fields f s sim =
     (let u = (\<lambda>pos. decode_nat s (f_read f pos 4));
          i = (\<lambda>pos. to_signed32 (decode_nat s (f_read f pos 4)));
          d = (\<lambda>pos. word_of_nat (decode_nat s (f_read f pos 8)))
      in sim\<lparr>swap := s,
          particle_numbers := (\<lambda>_. 0)(Gas := u 4, Halo := u 8, Disk := u 12, Bulge := u 16,
                                        Stars := u 20, Bndry := u 24),
          particle_mass := (\<lambda>_. 0)(Gas := d 28, Halo := d 36, Disk := d 44, Bulge := d 52,
                                     Stars := d 60, Bndry := d 68),
          cosmic_time := d 76, redshift := d 84, flags_sfr := i 92, flags_feedback := i 96,
          particle_total_numbers := (\<lambda>_. 0)(Gas := u 100, Halo := u 104, Disk := u 108,
                                              Bulge := u 112, Stars := u 116, Bndry := u 120),
          flags_cooling := i 124, file_number := i 128, box_size := d 132,
          omega_matter := d 140, omega_lambda := d 148, h := d 156,
          flags_stellar_age := i 164, flags_metals := i 168,
          particle_total_numbers_hw := (\<lambda>_. 0)(Gas := i 172, Halo := i 176, Disk := i 180,
                                                 Bulge := i 184, Stars := i 188, Bndry := i 192),
          flags_entr_ics := i 196\<rparr>)"

definition total_number :: "simulation \<Rightarrow> nat" where
  "total_number sim = sum_list (map (particle_numbers sim) particle_keys)"

definition mass_number :: "simulation \<Rightarrow> nat" where
  "mass_number sim =
     sum_list (map (\<lambda>k. if particle_numbers sim k \<noteq> 0 \<and> double_eq_zero (particle_mass sim k)
                         then particle_numbers sim k else 0) particle_keys)"

text \<open>
  The offset of a block as the specification words it: the sum of \<open>size + 8\<close> over the
  keys before it that are present, a present block being one of size above zero.
\<close>

definition spec_offset :: "(string \<rightharpoonup> nat) \<Rightarrow> string list \<Rightarrow> nat" where
  "spec_offset bs keys =
     sum_list (map (\<lambda>key. case bs key of Some sz \<Rightarrow> if sz > 0 then sz + 8 else 0 | None \<Rightarrow> 0) keys)"


section \<open>Test snapshots\<close>

text \<open>
  Byte strings for concrete snapshot files: a 32-bit size in either byte order, a
  record (payload between two sizes), and a little-endian header with the six particle
  counts \<open>ns\<close> and the flags \<open>fl = [sfr, feedback, cooling, stellar_age, metals]\<close>; all
  other header fields, the per-type masses among them, are zero.
\<close>

definition le32 :: "nat \<Rightarrow> byte list" where
  "le32 n = [word_of_nat n, word_of_nat (n div 256), word_of_nat (n div 65536),
             word_of_nat (n div 16777216)]"

definition be32 :: "nat \<Rightarrow> byte list" where
  "be32 n = rev (le32 n)"

definition record_bytes :: "byte list \<Rightarrow> byte list" where
  "record_bytes payload = le32 (length payload) @ payload @ le32 (length payload)"

definition header_bytes :: "nat list \<Rightarrow> nat list \<Rightarrow> byte list" where
  "header_bytes ns fl =
     le32 256 @ concat (map le32 ns) @ replicate 64 0 @ le32 (fl ! 0) @ le32 (fl ! 1)
       @ replicate 24 0 @ le32 (fl ! 2) @ le32 1 @ replicate 32 0 @ le32 (fl ! 3)
       @ le32 (fl ! 4) @ replicate 28 0 @ replicate 60 0 @ le32 256"

definition no_flags :: simulation where
  "no_flags = blank False False False False False"

text \<open>Headers alone: little-endian, big-endian, and three damaged ones.\<close>

definition hdr_gas1 :: "byte list" where
  "hdr_gas1 = header_bytes [1, 0, 0, 0, 0, 0] [0, 0, 0, 0, 0]"

definition hdr_be :: "byte list" where
  "hdr_be = be32 256 @ replicate 256 0 @ be32 256"

definition hdr_bad_lead :: "byte list" where
  "hdr_bad_lead = le32 7 @ replicate 256 0 @ le32 256"

definition hdr_bad_trail_le :: "byte list" where
  "hdr_bad_trail_le = le32 256 @ replicate 256 0 @ le32 7"

definition hdr_bad_trail_be :: "byte list" where
  "hdr_bad_trail_be = be32 256 @ replicate 256 0 @ be32 7"

definition hf_gas1 :: simulation where
  "hf_gas1 = header_fields hdr_gas1 (CHR ''<'') no_flags"

definition sim_gas1 :: simulation where
  "sim_gas1 = file_structure hf_gas1"

definition sim_be :: simulation where
  "sim_be = file_structure (header_fields hdr_be (CHR ''>'') no_flags)"

text \<open>
  A complete snapshot with one gas particle, whose mass is in the mass block, and no flag
  set: header, \<open>pos\<close>, \<open>vel\<close>, \<open>id\<close> (identifier 7), \<open>mass\<close>, \<open>u\<close>, \<open>rho\<close>,
  \<open>hsml\<close>. \<open>sim_gas1\<close> above is the handle the constructor builds from it.
\<close>

definition file_gas1 :: "byte list" where
  "file_gas1 = hdr_gas1
     @ record_bytes (replicate 12 1) @ record_bytes (replicate 12 2) @ record_bytes (le32 7)
     @ record_bytes (replicate 4 3) @ record_bytes (replicate 4 4) @ record_bytes (replicate 4 5)
     @ record_bytes (replicate 4 6)"

text \<open>
  One gas particle with the flags \<open>stellar_age\<close> and \<open>metals\<close> set and no star: the key
  \<open>age\<close> is in \<open>block_sizes\<close> with size 0 and takes no bytes in the file, which holds
  header, \<open>pos\<close>, \<open>vel\<close>, \<open>id\<close>, \<open>mass\<close>, \<open>u\<close>, \<open>rho\<close>, \<open>hsml\<close> and \<open>metals\<close>.
\<close>

definition hdr_age :: "byte list" where
  "hdr_age = header_bytes [1, 0, 0, 0, 0, 0] [0, 0, 0, 1, 1]"

definition hf_age :: simulation where
  "hf_age = header_fields hdr_age (CHR ''<'') no_flags"

definition sim_age :: simulation where
  "sim_age = file_structure hf_age"

definition file_age :: "byte list" where
  "file_age = hdr_age
     @ record_bytes (replicate 12 1) @ record_bytes (replicate 12 2) @ record_bytes (le32 7)
     @ record_bytes (replicate 4 3) @ record_bytes (replicate 4 4) @ record_bytes (replicate 4 5)
     @ record_bytes (replicate 4 6) @ record_bytes (replicate 48 8)"

text \<open>
  The snapshot of one gas particle followed by an acceleration block, read by a handle
  built with \<open>accel=True\<close>.
\<close>

definition accel_flag :: simulation where
  "accel_flag = blank False True False False False"

definition hf_acc :: simulation where
  "hf_acc = header_fields hdr_gas1 (CHR ''<'') accel_flag"

definition sim_acc :: simulation where
  "sim_acc = file_structure hf_acc"

definition file_acc :: "byte list" where
  "file_acc = file_gas1 @ record_bytes (replicate 12 9)"

text \<open>
  The scenario of 100 gas, 50 halo and 10 star particles with the flags \<open>sfr\<close>,
  \<open>cooling\<close>, \<open>stellar_age\<close> and \<open>metals\<close> set: a complete file whose \<open>pos\<close> payload
  is zero for the gas and halo rows and has every byte 1 in the ten star rows.
\<close>

definition hdr_c1 :: "byte list" where
  "hdr_c1 = header_bytes [100, 50, 0, 0, 10, 0] [1, 0, 1, 1, 1]"

definition hf_c1 :: simulation where
  "hf_c1 = header_fields hdr_c1 (CHR ''<'') no_flags"

definition sim_c1 :: simulation where
  "sim_c1 = file_structure hf_c1"

definition file_c1 :: "byte list" where
  "file_c1 = hdr_c1
     @ record_bytes (replicate 1800 0 @ replicate 120 1) @ record_bytes (replicate 1920 0)
     @ record_bytes (replicate 640 0) @ record_bytes (replicate 640 0)
     @ record_bytes (replicate 400 0) @ record_bytes (replicate 400 0)
     @ record_bytes (replicate 400 0) @ record_bytes (replicate 400 0)
     @ record_bytes (replicate 400 0) @ record_bytes (replicate 400 0)
     @ record_bytes (replicate 40 0) @ record_bytes (replicate 5280 0)"

text \<open>
  The snapshot \<open>file_age\<close> with both sizes around the \<open>metals\<close> payload damaged (99
  before, 77 after), with the bytes 4 to 8 of the payload holding 48, and followed by eight
  more bytes of which the last four hold 48.
\<close>

definition file_shift :: "byte list" where
  "file_shift = hdr_age
     @ record_bytes (replicate 12 1) @ record_bytes (replicate 12 2) @ record_bytes (le32 7)
     @ record_bytes (replicate 4 3) @ record_bytes (replicate 4 4) @ record_bytes (replicate 4 5)
     @ record_bytes (replicate 4 6)
     @ le32 99 @ (replicate 4 8 @ le32 48 @ replicate 40 8) @ le32 77
     @ replicate 4 8 @ le32 48"

text \<open>
  A FOF catalogue of two fragments without groups: each fragment holds the four header
  integers \<open>ngroups\<close> = 0, \<open>nids\<close> = 0, \<open>totngroups\<close> = 0, \<open>ntask\<close> = 2 and nothing else.
\<close>

definition fof_empty_files :: "nat \<Rightarrow> byte list" where
  "fof_empty_files i = le32 0 @ le32 0 @ le32 0 @ le32 2"

text \<open>
  A Subfind identifier file: sixteen header bytes, then the identifiers 10, 11, 12 as
  8-byte integers.
\<close>

definition le64 :: "nat \<Rightarrow> byte list" where
  "le64 n = le32 n @ le32 0"


section \<open>Reading: basic facts\<close>

lemma bind_err_Inl [simp]: "bind_err (Inl e) k = Inl e"
  by (simp add: bind_err_def)

lemma bind_err_Inr [simp]: "bind_err (Inr x) k = k x"
  by (simp add: bind_err_def)

lemma bind_err_eq_Inr: "bind_err m k = Inr y \<longleftrightarrow> (\<exists>x. m = Inr x \<and> k x = Inr y)"
  by (cases m) auto

lemma length_f_read: "length (f_read f pos n) = min n (length f - pos)"
  by (simp add: f_read_def)

lemma length_f_read_eq: "0 < n \<Longrightarrow> length (f_read f pos n) = n \<longleftrightarrow> pos + n \<le> length f"
  by (auto simp: f_read_def)

lemma rd_I_eq: "rd_I f s pos =
   (if pos + 4 \<le> length f then Inr (decode_nat s (f_read f pos 4), pos + 4) else Inl StructError)"
  by (simp add: rd_I_def unpack_I_def length_f_read_eq)

lemma rd_i_eq: "rd_i f s pos =
   (if pos + 4 \<le> length f then Inr (to_signed32 (decode_nat s (f_read f pos 4)), pos + 4)
    else Inl StructError)"
  by (simp add: rd_i_def unpack_i_def length_f_read_eq)

lemma rd_d_eq: "rd_d f s pos =
   (if pos + 8 \<le> length f then Inr (word_of_nat (decode_nat s (f_read f pos 8)), pos + 8)
    else Inl StructError)"
  by (simp add: rd_d_def unpack_d_def length_f_read_eq)

lemma read_fields_eq:
  "read_fields sim f s =
     (if 200 \<le> length f then Inr (header_fields f s sim, 200) else Inl StructError)"
  by (simp add: read_fields_def header_fields_def particle_keys_def rd_I_eq rd_i_eq rd_d_eq)


lemma read_header_eq:
  "read_header sim f =
    (if length f < 4 then Inl StructError
     else let size = to_signed32 (le_nat (f_read f 0 4)) in
       if size \<noteq> 65536 \<and> size \<noteq> 256 then Inl header_error
       else let s = (if size = 65536 then CHR ''>'' else CHR ''<'') in
         if length f < 264 then Inl StructError
         else if to_signed32 (decode_nat s (f_read f 260 4)) \<noteq> 256 then Inl header_error
         else Inr (file_structure (header_fields f s sim)))"
proof -
  consider "length f < 4" | "4 \<le> length f" "length f < 200"
    | "200 \<le> length f" "length f < 260" | "260 \<le> length f" "length f < 264"
    | "264 \<le> length f"
    by linarith
  then show ?thesis
  proof cases
    case 1
    then show ?thesis
      by (simp add: read_header_def unpack_i_def length_f_read)
  next
    case 2
    then show ?thesis
      by (simp add: read_header_def read_fields_eq unpack_i_def length_f_read decode_nat_def
          Let_def)
  next
    case 3
    then show ?thesis
      by (simp add: read_header_def read_fields_eq unpack_i_def length_f_read decode_nat_def
          Let_def min_def)
  next
    case 4
    then have "200 \<le> length f" "min 60 (length f - 200) = 60" "\<not> 4 \<le> length f - 260"
      by simp_all
    with 4 show ?thesis
      by (simp add: read_header_def read_fields_eq unpack_i_def length_f_read decode_nat_def
          Let_def min_def)
  next
    case 5
    then show ?thesis
      by (simp add: read_header_def read_fields_eq unpack_i_def length_f_read decode_nat_def
          Let_def)
  qed
qed

lemma swap_file_structure [simp]: "swap (file_structure sim) = swap sim"
  by (simp add: file_structure_def Let_def split: prod.splits)

lemma swap_header_fields [simp]: "swap (header_fields f s sim) = s"
  by (simp add: header_fields_def)

lemma length4E:
  assumes "length d = 4"
  obtains a b c e where "d = [a, b, c, e]"
  using assms by (auto simp: length_Suc_conv eval_nat_numeral)

lemma unat_byte_less: "unat (b :: byte) < 256"
  using unsigned_less [of b, where ?'a = nat] by simp

lemma le_nat4_less: "length d = 4 \<Longrightarrow> le_nat d < 2 ^ 32"
proof (erule length4E)
  fix a b c e :: byte assume "d = [a, b, c, e]"
  then show ?thesis
    using unat_byte_less [of a] unat_byte_less [of b] unat_byte_less [of c] unat_byte_less [of e]
    by simp
qed

lemma decode_nat4_less: "length d = 4 \<Longrightarrow> decode_nat s d < 2 ^ 32"
  using le_nat4_less [of d] le_nat4_less [of "rev d"] by (simp add: decode_nat_def be_nat_def)

lemma to_signed32_eq_iff:
  "n < 2 ^ 32 \<Longrightarrow> 0 \<le> v \<Longrightarrow> v < 2 ^ 31 \<Longrightarrow> to_signed32 n = v \<longleftrightarrow> int n = v"
  by (auto simp: to_signed32_def)

lemma byte_decomp:
  fixes a b :: byte
  assumes "unat a + 256 * n = unat b + 256 * m"
  shows "a = b \<and> n = m"
proof -
  have "(unat a + 256 * n) mod 256 = unat a" "(unat b + 256 * m) mod 256 = unat b"
    using unat_byte_less [of a] unat_byte_less [of b] by simp_all
  with assms have "unat a = unat b" by simp
  with assms show ?thesis by (simp add: word_unat_eq_iff)
qed

lemma le_nat_inj: "length xs = length ys \<Longrightarrow> le_nat xs = le_nat ys \<Longrightarrow> xs = ys"
proof (induction xs ys rule: list_induct2)
  case Nil
  then show ?case by simp
next
  case (Cons x xs y ys)
  from Cons.prems have "x = y \<and> le_nat xs = le_nat ys"
    by (intro byte_decomp) simp
  with Cons.IH show ?case by simp
qed

lemma swapped_256:
  assumes "length d = 4"
  shows "be_nat d = 256 \<longleftrightarrow> le_nat d = 65536"
proof -
  have "le_nat d = 65536 \<longleftrightarrow> le_nat d = le_nat [0, 0, 1, 0]" by simp
  also have "\<dots> \<longleftrightarrow> d = [0, 0, 1, 0]"
    using le_nat_inj [of d "[0, 0, 1, 0]"] assms by auto
  finally have le: "le_nat d = 65536 \<longleftrightarrow> d = [0, 0, 1, 0]" .
  have "be_nat d = 256 \<longleftrightarrow> le_nat (rev d) = le_nat [0, 1, 0, 0]" by (simp add: be_nat_def)
  also have "\<dots> \<longleftrightarrow> rev d = [0, 1, 0, 0]"
    using le_nat_inj [of "rev d" "[0, 1, 0, 0]"] assms by auto
  also have "\<dots> \<longleftrightarrow> d = [0, 0, 1, 0]"
    by (metis rev_rev_ident rev.simps append_Cons append_Nil)
  finally show ?thesis using le by simp
qed

lemma unpack_i_swapped:
  "unpack_i (CHR ''>'') d = Inr 256 \<longleftrightarrow> unpack_i (CHR ''<'') d = Inr 65536"
proof (cases "length d = 4")
  case True
  have "to_signed32 (be_nat d) = 256 \<longleftrightarrow> int (be_nat d) = 256"
    using decode_nat4_less [OF True, of "CHR ''>''"]
    by (intro to_signed32_eq_iff) (simp_all add: decode_nat_def)
  moreover have "to_signed32 (le_nat d) = 65536 \<longleftrightarrow> int (le_nat d) = 65536"
    using le_nat4_less [OF True] by (intro to_signed32_eq_iff) simp_all
  ultimately show ?thesis
    using True swapped_256 [OF True] by (simp add: unpack_i_def decode_nat_def)
next
  case False
  then show ?thesis by (simp add: unpack_i_def)
qed

lemma le_nat_replicate0 [simp]: "le_nat (replicate n 0) = 0"
  by (induction n) simp_all

lemma replicate_numeral: "replicate (numeral k) x = x # replicate (pred_numeral k) x"
  by (simp add: numeral_eq_Suc)

lemma chunks_Nil [simp]: "chunks n [] = []"
  by (simp add: chunks.simps)

lemma chunks_0 [simp]: "chunks 0 xs = []"
  by (simp add: chunks.simps)

lemma chunks_step: "0 < n \<Longrightarrow> xs \<noteq> [] \<Longrightarrow> chunks n xs = take n xs # chunks n (drop n xs)"
  by (subst chunks.simps) simp

section \<open>Layout: counts, domains and sizes\<close>

lemma fold_count:
  "fold (\<lambda>key (t, m). let number = n key in
           (t + number, if number \<noteq> 0 \<and> P key then m + number else m)) keys (t0, m0)
   = (t0 + sum_list (map n keys),
      m0 + sum_list (map (\<lambda>k. if n k \<noteq> 0 \<and> P k then n k else (0::nat)) keys))"
  by (induction keys arbitrary: t0 m0) (simp_all add: Let_def)

lemma count_particles_eq: "count_particles sim = (total_number sim, mass_number sim)"
  unfolding count_particles_def total_number_def mass_number_def
  using fold_count [of "particle_numbers sim" "\<lambda>k. double_eq_zero (particle_mass sim k)"
      particle_keys 0 0]
  by simp

lemma fold_domain:
  "distinct keys \<Longrightarrow>
   fold (\<lambda>key d. if P key then (if Q key then d(key \<mapsto> g key) else d) else d) keys m k
   = (if k \<in> set keys \<and> P k \<and> Q k then Some (g k) else m k)"
  by (induction keys arbitrary: m) auto

lemma ptype_in_keys [simp]: "k \<in> set particle_keys"
  by (cases k) (simp_all add: particle_keys_def)

lemma distinct_particle_keys [simp]: "distinct particle_keys"
  by (simp add: particle_keys_def)

lemma mass_domain_eq:
  "mass_domain sim k =
     (if double_eq_zero (particle_mass sim k) \<and> particle_numbers sim k \<noteq> 0
      then Some (particle_numbers sim k) else None)"
  unfolding mass_domain_def by (simp add: fold_domain)

lemma fold_present:
  "fold (\<lambda>key acc. case d key of Some n \<Rightarrow> acc + n | None \<Rightarrow> acc) keys a
   = a + sum_list (map (\<lambda>k. case d k of Some n \<Rightarrow> n | None \<Rightarrow> (0::nat)) keys)"
  by (induction keys arbitrary: a) (simp_all split: option.splits)

lemma sum_present_eq:
  "sum_present d keys = sum_list (map (\<lambda>k. case d k of Some n \<Rightarrow> n | None \<Rightarrow> 0) keys)"
  by (simp add: sum_present_def fold_present)

lemma index_of_Some: "index_of xs x = Some i \<Longrightarrow> i < length xs \<and> xs ! i = x"
  by (induction xs arbitrary: i) (auto split: if_splits)

lemma sum_present_split:
  assumes "index_of keys k = Some i" and "d k = Some n"
  shows "sum_present d (take i keys) + n + sum_present d (drop (i + 1) keys) = sum_present d keys"
proof -
  from assms(1) have "i < length keys" "keys ! i = k" by (auto dest: index_of_Some)
  then have "keys = take i keys @ k # drop (Suc i) keys"
    by (metis id_take_nth_drop)
  then have "sum_present d keys = sum_present d (take i keys @ k # drop (Suc i) keys)"
    by simp
  also have "\<dots> = sum_present d (take i keys) + n + sum_present d (drop (i + 1) keys)"
    using assms(2) by (simp add: sum_present_eq)
  finally show ?thesis by simp
qed

lemma compute_offset_Inr:
  assumes "compute_offset sim bt pt = Inr (off, rs, rem)"
  shows "\<exists>n. fst (block_domain sim bt) pt = Some n \<and> rs = n * (snd (block_domain sim bt) * 4)
           \<and> off + rs + rem
               = sum_present (fst (block_domain sim bt)) particle_keys
                   * (snd (block_domain sim bt) * 4)"
proof -
  obtain d dim where bd: "block_domain sim bt = (d, dim)" by (cases "block_domain sim bt")
  from assms bd obtain order n where
    io: "index_of particle_keys pt = Some order" and dn: "d pt = Some n"
    and off: "off = sum_present d (take order particle_keys) * (dim * 4)"
    and rs: "rs = n * (dim * 4)"
    and rem: "rem = sum_present d (drop (order + 1) particle_keys) * (dim * 4)"
    by (auto simp: compute_offset_def Let_def split: option.splits)
  have "off + rs + rem
      = (sum_present d (take order particle_keys) + n
          + sum_present d (drop (order + 1) particle_keys)) * (dim * 4)"
    by (simp add: off rs rem algebra_simps)
  also have "\<dots> = sum_present d particle_keys * (dim * 4)"
    using sum_present_split [of particle_keys pt order d n] io dn by simp
  finally show ?thesis using bd dn rs by simp
qed

lemma block_sizes_lookup:
  "block_sizes (file_structure sim) ''header'' = Some 256"
  "block_sizes (file_structure sim) ''pos'' = Some (total_number sim * 4 * 3)"
  "block_sizes (file_structure sim) ''vel'' = Some (total_number sim * 4 * 3)"
  "block_sizes (file_structure sim) ''id''
     = Some (if use_longids sim then total_number sim * 4 * 2 else total_number sim * 4)"
  "block_sizes (file_structure sim) ''mass'' = Some (mass_number sim * 4)"
  "block_sizes (file_structure sim) ''u'' = Some (particle_numbers sim Gas * 4)"
  "block_sizes (file_structure sim) ''rho'' = Some (particle_numbers sim Gas * 4)"
  "block_sizes (file_structure sim) ''ne''
     = (if flags_cooling sim \<noteq> 0 then Some (particle_numbers sim Gas * 4) else None)"
  "block_sizes (file_structure sim) ''nh''
     = (if flags_cooling sim \<noteq> 0 then Some (particle_numbers sim Gas * 4) else None)"
  "block_sizes (file_structure sim) ''hsml'' = Some (particle_numbers sim Gas * 4)"
  "block_sizes (file_structure sim) ''sfr''
     = (if flags_sfr sim \<noteq> 0 then Some (particle_numbers sim Gas * 4) else None)"
  "block_sizes (file_structure sim) ''age''
     = (if flags_stellar_age sim \<noteq> 0 then Some (particle_numbers sim Stars * 4) else None)"
  "block_sizes (file_structure sim) ''metals''
     = (if flags_metals sim \<noteq> 0
        then Some ((particle_numbers sim Gas * 4 + particle_numbers sim Stars * 4) * 12)
        else None)"
  "block_sizes (file_structure sim) ''pot''
     = (if flags_pot sim then Some (total_number sim * 4) else None)"
  "block_sizes (file_structure sim) ''accel''
     = (if flags_accel sim then Some (total_number sim * 4 * 3) else None)"
  "block_sizes (file_structure sim) ''endt''
     = (if flags_endt sim then Some (particle_numbers sim Gas * 4) else None)"
  "block_sizes (file_structure sim) ''tstp''
     = (if flags_tstp sim then Some (total_number sim * 4) else None)"
  "block_sizes (file_structure sim) ''esn''
     = (if flags_feedback sim \<noteq> 0
        then Some (particle_numbers sim Gas * 4 + particle_numbers sim Stars * 4) else None)"
  "block_sizes (file_structure sim) ''esncold''
     = (if flags_feedback sim \<noteq> 0
        then Some (particle_numbers sim Gas * 4 + particle_numbers sim Stars * 4) else None)"
  by (simp_all add: file_structure_def Let_def if_distribR count_particles_eq element_keys_def)


lemma block_sizes_outside:
  "bt \<notin> set block_keys \<Longrightarrow> block_sizes (file_structure sim) bt = None"
  by (simp add: file_structure_def block_keys_def Let_def if_distribR count_particles_eq)


lemma block_sizes_dom:
  "block_sizes (file_structure sim) bt = Some sz \<Longrightarrow> bt \<in> set block_keys"
  using block_sizes_outside [of bt sim] by (cases "bt \<in> set block_keys") simp_all

lemma particle_numbers_file_structure [simp]:
  "particle_numbers (file_structure sim) = particle_numbers sim"
  "particle_mass (file_structure sim) = particle_mass sim"
  "use_longids (file_structure sim) = use_longids sim"
  by (simp_all add: file_structure_def Let_def split: prod.splits)

lemma mass_domain_file_structure [simp]:
  "mass_domain (file_structure sim) = mass_domain sim"
  by (simp add: mass_domain_def cong: if_cong)

lemma block_domain_file_structure [simp]:
  "block_domain (file_structure sim) bt = block_domain sim bt"
  by (simp add: block_domain_def)

lemma block_keys_cases:
  assumes "bt \<in> set block_keys"
  obtains "bt = ''header''" | "bt = ''pos''" | "bt = ''vel''" | "bt = ''id''" | "bt = ''mass''"
    | "bt = ''u''" | "bt = ''rho''" | "bt = ''ne''" | "bt = ''nh''" | "bt = ''hsml''"
    | "bt = ''sfr''" | "bt = ''age''" | "bt = ''metals''" | "bt = ''pot''" | "bt = ''accel''"
    | "bt = ''endt''" | "bt = ''tstp''" | "bt = ''esn''" | "bt = ''esncold''"
proof -
  from assms have "bt = ''header'' \<or> bt = ''pos'' \<or> bt = ''vel'' \<or> bt = ''id'' \<or> bt = ''mass''
    \<or> bt = ''u'' \<or> bt = ''rho'' \<or> bt = ''ne'' \<or> bt = ''nh'' \<or> bt = ''hsml''
    \<or> bt = ''sfr'' \<or> bt = ''age'' \<or> bt = ''metals'' \<or> bt = ''pot'' \<or> bt = ''accel''
    \<or> bt = ''endt'' \<or> bt = ''tstp'' \<or> bt = ''esn'' \<or> bt = ''esncold''"
    unfolding block_keys_def set_simps insert_iff empty_iff by (simp only: disj_assoc simp_thms)
  then show thesis
    apply (elim disjE)
    apply (erule that(1), erule that(2), erule that(3), erule that(4), erule that(5),
           erule that(6), erule that(7), erule that(8), erule that(9), erule that(10),
           erule that(11), erule that(12), erule that(13), erule that(14), erule that(15),
           erule that(16), erule that(17), erule that(18), erule that(19))
    done
qed


lemma sum_present_all:
  "sum_present (\<lambda>key. Some (particle_numbers sim key)) particle_keys = total_number sim"
  by (simp add: sum_present_eq total_number_def)

lemma sum_present_mass:
  "sum_present (mass_domain sim) particle_keys = mass_number sim"
proof -
  have "(case mass_domain sim k of Some n \<Rightarrow> n | None \<Rightarrow> 0)
      = (if particle_numbers sim k \<noteq> 0 \<and> double_eq_zero (particle_mass sim k)
         then particle_numbers sim k else 0)" for k
    by (simp add: mass_domain_eq)
  then show ?thesis by (simp add: sum_present_eq mass_number_def)
qed

lemma sum_present_gas:
  "sum_present (Map.empty(Gas \<mapsto> n)) particle_keys = n"
  by (simp add: sum_present_eq particle_keys_def)

lemma sum_present_stars:
  "sum_present (Map.empty(Stars \<mapsto> n)) particle_keys = n"
  by (simp add: sum_present_eq particle_keys_def)

lemma sum_present_baryons:
  "sum_present (Map.empty(Gas \<mapsto> n, Stars \<mapsto> m)) particle_keys = n + m"
  by (simp add: sum_present_eq particle_keys_def)

lemmas sum_present_simps =
  sum_present_all sum_present_mass sum_present_gas sum_present_stars sum_present_baryons

lemma domain_total_size:
  assumes "block_sizes (file_structure sim) bt = Some sz" and "bt \<noteq> ''header''"
  shows "sz = sum_present (fst (block_domain sim bt)) particle_keys
                * (snd (block_domain sim bt) * 4)"
proof -
  from assms(1) have "bt \<in> set block_keys" by (rule block_sizes_dom)
  then show ?thesis
    using assms
    by (cases rule: block_keys_cases)
      (simp_all add: block_sizes_lookup block_domain_def sum_present_simps element_keys_def
        split: if_splits)
qed

section \<open>Record markers and payload\<close>

lemma unpack_I_Inr: "unpack_I s d = Inr v \<longleftrightarrow> length d = 4 \<and> v = decode_nat s d"
  by (auto simp: unpack_I_def)

lemma rd_I_Inr:
  "rd_I f s pos = Inr (v, p) \<longleftrightarrow> unpack_I s (f_read f pos 4) = Inr v \<and> p = pos + 4"
  by (auto simp: rd_I_def unpack_I_def)

lemma unpack_I_f_read_Inr:
  "unpack_I s (f_read f pos 4) = Inr v \<Longrightarrow> pos + 4 \<le> length f"
  by (simp add: unpack_I_def length_f_read_eq split: if_splits)

lemma file_check_loop_markers:
  "file_check_loop bs s f keys pos = Inr p \<Longrightarrow> i < length keys \<Longrightarrow> bs (keys ! i) = Some sz
   \<Longrightarrow> 0 < sz
   \<Longrightarrow> unpack_I s (f_read f (pos + spec_offset bs (take i keys)) 4) = Inr sz
     \<and> unpack_I s (f_read f (pos + spec_offset bs (take i keys) + 4 + sz) 4) = Inr sz"
proof (induction keys arbitrary: pos i)
  case Nil
  then show ?case by simp
next
  case (Cons key keys)
  show ?case
  proof (cases "\<exists>z. bs key = Some z \<and> 0 < z")
    case False
    then have step: "file_check_loop bs s f (key # keys) pos = file_check_loop bs s f keys pos"
      and off0: "spec_offset bs [key] = 0"
      by (auto simp: spec_offset_def split: option.splits)
    show ?thesis
    proof (cases i)
      case 0
      with Cons.prems False show ?thesis by auto
    next
      case (Suc j)
      with Cons.prems step Cons.IH [of pos j] off0 show ?thesis
        by (simp add: spec_offset_def)
    qed
  next
    case True
    then obtain z where z: "bs key = Some z" "0 < z" by blast
    from Cons.prems(1) z have
      m1: "unpack_I s (f_read f pos 4) = Inr z"
      and m2: "unpack_I s (f_read f (pos + 4 + z) 4) = Inr z"
      and rest: "file_check_loop bs s f keys (pos + 4 + z + 4) = Inr p"
      by (auto simp: rd_I_def bind_err_eq_Inr split: if_splits)
    show ?thesis
    proof (cases i)
      case 0
      with Cons.prems z m1 m2 show ?thesis by (simp add: spec_offset_def)
    next
      case (Suc j)
      have eq: "pos + spec_offset bs (take i (key # keys))
          = (pos + 4 + z + 4) + spec_offset bs (take j keys)"
        using Suc z by (simp add: spec_offset_def)
      from Cons.prems Suc have "j < length keys" "bs (keys ! j) = Some sz" by simp_all
      from Cons.IH [OF rest this \<open>0 < sz\<close>] show ?thesis
        unfolding eq .

    qed
  qed
qed


lemma index_of_particle_keys: "\<exists>order. index_of particle_keys pt = Some order"
  by (cases pt) (simp_all add: particle_keys_def)

lemma compute_offset_header: "compute_offset sim ''header'' pt = Inl KeyError"
  using index_of_particle_keys [of pt]
  by (auto simp: compute_offset_def block_domain_def Let_def)

lemma read_payload_Inr:
  assumes "read_payload sim s f bt pt = Inr data"
  shows "\<exists>sz order off rs rem.
           block_sizes sim bt = Some sz \<and> index_of block_keys bt = Some order
         \<and> compute_offset sim bt pt = Inr (off, rs, rem)
         \<and> unpack_I s (f_read f (block_skip (block_sizes sim) (take order block_keys)) 4) = Inr sz
         \<and> data = f_read f (block_skip (block_sizes sim) (take order block_keys) + 4 + off) rs
         \<and> length data = rs
         \<and> unpack_I s (f_read f (block_skip (block_sizes sim) (take order block_keys)
                                   + 4 + off + rs + rem) 4) = Inr sz"
proof -
  from assms obtain sz where sz: "block_sizes sim bt = Some sz"
    by (auto simp: read_payload_def split: option.splits)
  from assms sz obtain order where order: "index_of block_keys bt = Some order"
    by (auto simp: read_payload_def split: option.splits)
  define skip where "skip = block_skip (block_sizes sim) (take order block_keys)"
  from assms sz order have lead: "unpack_I s (f_read f skip 4) = Inr sz"
    by (auto simp: read_payload_def skip_def Let_def rd_I_def bind_err_eq_Inr split: if_splits)
  from assms sz order lead obtain off rs rem where
    co: "compute_offset sim bt pt = Inr (off, rs, rem)"
    by (auto simp: read_payload_def skip_def Let_def rd_I_def bind_err_eq_Inr split: if_splits)
  from assms sz order lead co have dat: "data = f_read f (skip + 4 + off) rs"
    and trail: "unpack_I s (f_read f (skip + 4 + off + length data + rem) 4) = Inr sz"
    by (auto simp: read_payload_def skip_def Let_def rd_I_def bind_err_eq_Inr split: if_splits)
  from trail have "skip + 4 + off + length data + rem + 4 \<le> length f"
    by (rule unpack_I_f_read_Inr)
  with dat have len: "length data = rs"
    by (simp add: length_f_read min_def split: if_splits)
  show ?thesis
    using sz order co lead dat len trail unfolding skip_def by auto
qed

lemma read_header_Inr:
  "read_header sim f = Inr sim1 \<Longrightarrow> sim1 = file_structure (header_fields f (swap sim1) sim)"
  by (auto simp: read_header_eq Let_def split: if_splits)

lemma read_payload_markers:
  assumes "read_payload (file_structure sim0) s f bt pt = Inr data"
  shows "\<exists>sz order.
           block_sizes (file_structure sim0) bt = Some sz \<and> index_of block_keys bt = Some order
         \<and> unpack_I s (f_read f (block_skip (block_sizes (file_structure sim0))
                                     (take order block_keys)) 4) = Inr sz
         \<and> unpack_I s (f_read f (block_skip (block_sizes (file_structure sim0))
                                     (take order block_keys) + 4 + sz) 4) = Inr sz"
proof -
  from read_payload_Inr [OF assms] obtain sz order off rs rem where
    sz: "block_sizes (file_structure sim0) bt = Some sz"
    and order: "index_of block_keys bt = Some order"
    and co: "compute_offset (file_structure sim0) bt pt = Inr (off, rs, rem)"
    and lead: "unpack_I s (f_read f (block_skip (block_sizes (file_structure sim0))
                                     (take order block_keys)) 4) = Inr sz"
    and trail: "unpack_I s (f_read f (block_skip (block_sizes (file_structure sim0))
                                     (take order block_keys) + 4 + off + rs + rem) 4) = Inr sz"
    by blast
  from co have "bt \<noteq> ''header''" by (auto simp: compute_offset_header)
  from domain_total_size [OF sz this] compute_offset_Inr [OF co]
  have "off + rs + rem = sz" by auto
  then have "block_skip (block_sizes (file_structure sim0)) (take order block_keys)
               + 4 + off + rs + rem
           = block_skip (block_sizes (file_structure sim0)) (take order block_keys) + 4 + sz"
    by simp
  with sz order lead trail show ?thesis by auto
qed

lemma read_array_Inr:
  assumes "read_array sim f bt pt = Inr (arr, sim1)"
  shows "read_header sim f = Inr sim1
       \<and> (\<exists>data block. read_payload sim1 (swap sim) f bt pt = Inr data
             \<and> fromstring (swap sim) (block_dtype sim1 bt) data = Inr block
             \<and> set_shape block (block_shape sim1 bt pt block) = Inr arr)"
  using assms by (auto simp: read_array_def Let_def bind_err_eq_Inr)

lemma read_block_Inr:
  assumes "read_block sim f bt pt = Inr (fr, sim')"
  shows "\<exists>arr sim1. read_array sim f bt pt = Inr (arr, sim1)"
  using assms by (auto simp: read_block_def bind_err_eq_Inr)

lemma file_structure_is_update:
  "file_structure sim = sim\<lparr>block_sizes := block_sizes (file_structure sim)\<rparr>"
  by (simp add: file_structure_def Let_def case_prod_beta split del: if_split)

lemma count_particles_block_sizes_update [simp]:
  "count_particles (sim\<lparr>block_sizes := b\<rparr>) = count_particles sim"
  by (simp add: count_particles_def)

lemma file_structure_block_sizes_update [simp]:
  "file_structure (sim\<lparr>block_sizes := b\<rparr>) = file_structure sim"
  by (simp add: file_structure_def Let_def case_prod_beta split del: if_split)

lemma header_fields_block_sizes_update [simp]:
  "header_fields f s (sim\<lparr>block_sizes := b\<rparr>) = (header_fields f s sim)\<lparr>block_sizes := b\<rparr>"
  by (simp add: header_fields_def)

lemma header_fields_twice [simp]:
  "header_fields f s (header_fields f s' sim) = header_fields f s sim"
  by (simp add: header_fields_def)

lemma file_structure_header_fields_again:
  "file_structure (header_fields f s (file_structure (header_fields f s' sim)))
     = file_structure (header_fields f s sim)"
proof -
  have "file_structure (header_fields f s' sim)
      = (header_fields f s' sim)\<lparr>block_sizes := block_sizes (file_structure (header_fields f s' sim))\<rparr>"
    by (rule file_structure_is_update)
  then have "header_fields f s (file_structure (header_fields f s' sim))
      = (header_fields f s sim)\<lparr>block_sizes := block_sizes (file_structure (header_fields f s' sim))\<rparr>"
    by (metis header_fields_block_sizes_update header_fields_twice)
  then show ?thesis by simp
qed

lemma read_header_again:
  assumes "read_header sim f = Inr sim1"
  shows "read_header sim1 f = Inr sim1"
proof -
  from assms have "sim1 = file_structure (header_fields f (swap sim1) sim)"
    by (rule read_header_Inr)
  then have "file_structure (header_fields f s sim1) = file_structure (header_fields f s sim)" for s
    by (metis file_structure_header_fields_again)
  then have "read_header sim1 f = read_header sim f"
    by (simp add: read_header_eq Let_def cong: if_cong)
  with assms show ?thesis by simp
qed

lemma fold_skip:
  "fold (\<lambda>key skip. case bs key of Some sz \<Rightarrow> skip + (sz + 8) | None \<Rightarrow> skip) keys a
   = a + sum_list (map (\<lambda>k. case bs k of Some sz \<Rightarrow> sz + 8 | None \<Rightarrow> (0::nat)) keys)"
  by (induction keys arbitrary: a) (simp_all split: option.splits)

lemma block_skip_eq:
  "block_skip bs keys = spec_offset bs keys + 8 * length (filter (\<lambda>k. bs k = Some 0) keys)"
  unfolding block_skip_def fold_skip spec_offset_def
  by (induction keys) (auto split: option.splits)

lemma block_skip_spec_offset:
  "\<forall>k \<in> set keys. bs k \<noteq> Some 0 \<Longrightarrow> block_skip bs keys = spec_offset bs keys"
  by (simp add: block_skip_eq filter_empty_conv [THEN iffD2])

lemma mass_domain_dom:
  "k \<in> dom (mass_domain sim)
     \<longleftrightarrow> double_eq_zero (particle_mass sim k) \<and> particle_numbers sim k \<noteq> 0"
  by (simp add: dom_def mass_domain_eq)

lemma block_domain_mass: "block_domain sim ''mass'' = (mass_domain sim, 1)"
  by (simp add: block_domain_def)

lemma compute_offset_outside:
  "fst (block_domain sim bt) pt = None \<Longrightarrow> compute_offset sim bt pt = Inl KeyError"
  using index_of_particle_keys [of pt]
  by (auto simp: compute_offset_def Let_def split: prod.splits)

lemma compute_offset_inside:
  "fst (block_domain sim bt) pt = Some n \<Longrightarrow>
   \<exists>off rem. compute_offset sim bt pt = Inr (off, n * (snd (block_domain sim bt) * 4), rem)"
  using index_of_particle_keys [of pt]
  by (auto simp: compute_offset_def Let_def split: prod.splits)

lemma read_payload_ok:
  assumes bs: "block_sizes sim bt = Some sz" and order: "index_of block_keys bt = Some order"
    and co: "compute_offset sim bt pt = Inr (off, rs, rem)"
    and lead: "unpack_I s (f_read f (block_skip (block_sizes sim) (take order block_keys)) 4)
                 = Inr sz"
    and trail: "unpack_I s (f_read f (block_skip (block_sizes sim) (take order block_keys)
                                        + 4 + off + rs + rem) 4) = Inr sz"
  shows "read_payload sim s f bt pt
           = Inr (f_read f (block_skip (block_sizes sim) (take order block_keys) + 4 + off) rs)"
proof -
  define skip where "skip = block_skip (block_sizes sim) (take order block_keys)"
  from trail have "skip + 4 + off + rs + rem + 4 \<le> length f"
    unfolding skip_def by (rule unpack_I_f_read_Inr)
  then have len: "length (f_read f (skip + 4 + off) rs) = rs"
    by (simp add: length_f_read)
  from lead have l: "rd_I f s skip = Inr (sz, skip + 4)"
    by (simp add: rd_I_Inr skip_def)
  from trail have t: "rd_I f s (skip + 4 + off + rs + rem) = Inr (sz, skip + 4 + off + rs + rem + 4)"
    by (simp add: rd_I_Inr skip_def)
  show ?thesis
    using bs order co l t len
    by (simp add: read_payload_def skip_def [symmetric] Let_def)
qed

lemma block_domain_value:
  "fst (block_domain sim bt) pt = Some n \<Longrightarrow> n = particle_numbers sim pt"
  by (auto simp: block_domain_def mass_domain_eq split: if_splits)

lemma block_domain_header: "fst (block_domain sim ''header'') pt = None"
  by (simp add: block_domain_def)

lemma read_payload_empty:
  assumes bs: "block_sizes (file_structure sim0) bt = Some sz"
    and order: "index_of block_keys bt = Some order"
    and dom: "fst (block_domain sim0 bt) pt = Some 0"
    and lead: "unpack_I s (f_read f (block_skip (block_sizes (file_structure sim0))
                                      (take order block_keys)) 4) = Inr sz"
    and trail: "unpack_I s (f_read f (block_skip (block_sizes (file_structure sim0))
                                      (take order block_keys) + 4 + sz) 4) = Inr sz"
  shows "read_payload (file_structure sim0) s f bt pt = Inr []"
proof -
  from dom have nh: "bt \<noteq> ''header''" by (auto simp: block_domain_header)
  from dom have "fst (block_domain (file_structure sim0) bt) pt = Some 0" by simp
  from compute_offset_inside [OF this] obtain off rem where
    co: "compute_offset (file_structure sim0) bt pt = Inr (off, 0, rem)" by auto
  from compute_offset_Inr [OF co] domain_total_size [OF bs nh]
  have "off + 0 + rem = sz" by auto
  with trail have "unpack_I s (f_read f (block_skip (block_sizes (file_structure sim0))
                                      (take order block_keys) + 4 + off + 0 + rem) 4) = Inr sz"
    by (simp add: add.assoc)
  from read_payload_ok [OF bs order co lead this] show ?thesis
    by (simp add: f_read_def)
qed

lemma read_array_empty:
  assumes rh: "read_header sim f = Inr sim1"
    and bs: "block_sizes sim1 bt = Some sz" and order: "index_of block_keys bt = Some order"
    and dom: "fst (block_domain sim1 bt) pt = Some 0"
    and lead: "unpack_I (swap sim) (f_read f (block_skip (block_sizes sim1)
                                      (take order block_keys)) 4) = Inr sz"
    and trail: "unpack_I (swap sim) (f_read f (block_skip (block_sizes sim1)
                                      (take order block_keys) + 4 + sz) 4) = Inr sz"
  shows "read_array sim f bt pt
           = Inr (\<lparr>shape = block_shape sim1 bt pt [], elems = []\<rparr>, sim1)"
proof -
  from rh have s1: "sim1 = file_structure (header_fields f (swap sim1) sim)"
    by (rule read_header_Inr)
  define sim0 where "sim0 = header_fields f (swap sim1) sim"
  have s1': "sim1 = file_structure sim0" using s1 by (simp add: sim0_def)
  from dom have dom0: "fst (block_domain sim0 bt) pt = Some 0" by (simp add: s1')
  have rp: "read_payload sim1 (swap sim) f bt pt = Inr []"
    using read_payload_empty [OF bs [unfolded s1'] order dom0 lead [unfolded s1']
        trail [unfolded s1']]
    by (simp add: s1')
  from dom have "particle_numbers sim1 pt = 0" by (auto dest: block_domain_value)
  then have "prod_list (block_shape sim1 bt pt []) = 0"
    by (simp add: block_shape_def)
  then show ?thesis
    using rh rp by (simp add: read_array_def fromstring_def set_shape_def)
qed


lemma read_array_outside:
  assumes rh: "read_header sim f = Inr sim1"
    and bs: "block_sizes sim1 bt = Some sz" and order: "index_of block_keys bt = Some order"
    and dom: "fst (block_domain sim1 bt) pt = None"
    and lead: "unpack_I (swap sim) (f_read f (block_skip (block_sizes sim1)
                                      (take order block_keys)) 4) = Inr sz"
  shows "read_array sim f bt pt = Inl KeyError"
proof -
  from lead have "rd_I f (swap sim) (block_skip (block_sizes sim1) (take order block_keys))
      = Inr (sz, block_skip (block_sizes sim1) (take order block_keys) + 4)"
    by (simp add: rd_I_Inr)
  with rh bs order compute_offset_outside [OF dom] show ?thesis
    by (simp add: read_array_def read_payload_def Let_def)
qed

lemma block_domain_id: "fst (block_domain sim ''id'') pt = Some (particle_numbers sim pt)"
  by (simp add: block_domain_def)

lemma empty_frame:
  assumes "bt \<noteq> ''accel''" and "bt \<noteq> ''acc''" and "particle_numbers sim1 pt = 0"
  shows "mk_DataFrame \<lparr>shape = block_shape sim1 bt pt [], elems = []\<rparr> (block_columns bt) []
           = Inr (DataFrame (block_columns bt) [] [])"
  using assms by (simp add: mk_DataFrame_def block_shape_def block_columns_def)

lemma chunks_replicate:
  "0 < n \<Longrightarrow> chunks n (replicate (k * n) x) = replicate k (replicate n x)"
proof (induction k)
  case 0
  then show ?case by simp
next
  case (Suc k)
  then have "chunks n (replicate (Suc k * n) x)
      = take n (replicate (Suc k * n) x) # chunks n (drop n (replicate (Suc k * n) x))"
    by (intro chunks_step) simp_all
  with Suc show ?case by simp
qed

lemma chunks_exact:
  "0 < n \<Longrightarrow> length xs = k * n
   \<Longrightarrow> length (chunks n xs) = k \<and> (\<forall>c \<in> set (chunks n xs). length c = n)
       \<and> concat (chunks n xs) = xs"
proof (induction k arbitrary: xs)
  case 0
  then show ?case by simp
next
  case (Suc k)
  then have ne: "xs \<noteq> []" by auto
  from Suc.prems have "length (drop n xs) = k * n" by simp
  from Suc.IH [OF Suc.prems(1) this] Suc.prems chunks_step [OF Suc.prems(1) ne]
  show ?case by simp
qed

lemma markers_from_file_check:
  assumes fc: "file_check sim f = Inr ()"
    and order: "index_of block_keys bt = Some order"
    and bs: "block_sizes sim bt = Some sz" and pos: "0 < sz"
    and nz: "\<forall>k \<in> set (take order block_keys). block_sizes sim k \<noteq> Some 0"
  shows "unpack_I (swap sim)
           (f_read f (block_skip (block_sizes sim) (take order block_keys)) 4) = Inr sz
       \<and> unpack_I (swap sim)
           (f_read f (block_skip (block_sizes sim) (take order block_keys) + 4 + sz) 4) = Inr sz"
proof -
  from fc obtain p where l: "file_check_loop (block_sizes sim) (swap sim) f block_keys 0 = Inr p"
    by (auto simp: file_check_def bind_err_eq_Inr)
  from order have i: "order < length block_keys" "block_keys ! order = bt"
    by (auto dest: index_of_Some)
  from file_check_loop_markers [OF l i(1) bs [folded i(2)] pos]
    block_skip_spec_offset [OF nz]
  show ?thesis by simp
qed

lemma read_payload_full:
  assumes bs: "block_sizes (file_structure sim0) bt = Some sz"
    and order: "index_of block_keys bt = Some order"
    and dom: "fst (block_domain sim0 bt) pt = Some n"
    and lead: "unpack_I s (f_read f (block_skip (block_sizes (file_structure sim0))
                                      (take order block_keys)) 4) = Inr sz"
    and trail: "unpack_I s (f_read f (block_skip (block_sizes (file_structure sim0))
                                      (take order block_keys) + 4 + sz) 4) = Inr sz"
  shows "\<exists>data off. read_payload (file_structure sim0) s f bt pt = Inr data
           \<and> length data = n * (snd (block_domain sim0 bt) * 4)
           \<and> data = f_read f (block_skip (block_sizes (file_structure sim0))
                                 (take order block_keys) + 4 + off)
                             (n * (snd (block_domain sim0 bt) * 4))"
proof -
  from dom have nh: "bt \<noteq> ''header''" by (auto simp: block_domain_header)
  from dom have "fst (block_domain (file_structure sim0) bt) pt = Some n" by simp
  from compute_offset_inside [OF this] obtain off rem where
    co: "compute_offset (file_structure sim0) bt pt
           = Inr (off, n * (snd (block_domain sim0 bt) * 4), rem)" by auto
  from compute_offset_Inr [OF co] domain_total_size [OF bs nh]
  have "off + n * (snd (block_domain sim0 bt) * 4) + rem = sz" by auto
  with trail have t: "unpack_I s (f_read f (block_skip (block_sizes (file_structure sim0))
                                      (take order block_keys) + 4 + off
                                      + n * (snd (block_domain sim0 bt) * 4) + rem) 4) = Inr sz"
    by (simp add: add.assoc)
  from read_payload_ok [OF bs order co lead t] have
    rp: "read_payload (file_structure sim0) s f bt pt
          = Inr (f_read f (block_skip (block_sizes (file_structure sim0))
                            (take order block_keys) + 4 + off)
                   (n * (snd (block_domain sim0 bt) * 4)))" .
  from t have "block_skip (block_sizes (file_structure sim0)) (take order block_keys) + 4 + off
                 + n * (snd (block_domain sim0 bt) * 4) + rem + 4 \<le> length f"
    by (rule unpack_I_f_read_Inr)
  then have "length (f_read f (block_skip (block_sizes (file_structure sim0))
                            (take order block_keys) + 4 + off)
                   (n * (snd (block_domain sim0 bt) * 4)))
               = n * (snd (block_domain sim0 bt) * 4)"
    by (simp add: length_f_read)
  with rp show ?thesis by blast
qed

lemma sum_present_le_total:
  "sum_present (fst (block_domain sim bt)) particle_keys \<le> total_number sim"
proof -
  have "(case fst (block_domain sim bt) k of Some n \<Rightarrow> n | None \<Rightarrow> 0) \<le> particle_numbers sim k"
    for k
    by (cases "fst (block_domain sim bt) k") (auto dest: block_domain_value)
  then show ?thesis
    unfolding sum_present_eq total_number_def by (intro sum_list_mono) simp
qed

lemma present_total_positive:
  assumes "block_sizes (file_structure sim0) bt = Some sz" and "0 < sz" and "bt \<noteq> ''header''"
  shows "0 < total_number sim0"
proof -
  from domain_total_size [OF assms(1,3)] assms(2)
  have "0 < sum_present (fst (block_domain sim0 bt)) particle_keys" by (cases "sum_present (fst (block_domain sim0 bt)) particle_keys = 0") auto
  with sum_present_le_total [of sim0 bt] show ?thesis by simp
qed

lemma id_markers_from_file_check:
  assumes fc: "file_check (file_structure sim0) f = Inr ()" and tot: "0 < total_number sim0"
  shows "\<exists>szi. block_sizes (file_structure sim0) ''id'' = Some szi
       \<and> unpack_I (swap (file_structure sim0))
           (f_read f (block_skip (block_sizes (file_structure sim0)) (take 3 block_keys)) 4)
          = Inr szi
       \<and> unpack_I (swap (file_structure sim0))
           (f_read f (block_skip (block_sizes (file_structure sim0)) (take 3 block_keys)
                       + 4 + szi) 4) = Inr szi"
proof -
  define szi where "szi = (if use_longids sim0 then total_number sim0 * 4 * 2
                           else total_number sim0 * 4)"
  have bs: "block_sizes (file_structure sim0) ''id'' = Some szi"
    by (simp add: block_sizes_lookup szi_def)
  have pos: "0 < szi" using tot by (simp add: szi_def)
  have oi: "index_of block_keys ''id'' = Some 3" by (simp add: block_keys_def)
  have nz: "\<forall>k \<in> set (take 3 block_keys). block_sizes (file_structure sim0) k \<noteq> Some 0"
    using tot by (simp add: block_keys_def block_sizes_lookup)
  from markers_from_file_check [OF fc oi bs pos nz] bs show ?thesis by blast
qed

lemma zero_particles_at_seek_offset:
  assumes rh: "read_header sim f = Inr sim1" and sw: "swap sim = swap sim1"
    and bs: "block_sizes sim1 bt = Some sz" and order: "index_of block_keys bt = Some order"
    and lead: "unpack_I (swap sim) (f_read f (block_skip (block_sizes sim1)
                                      (take order block_keys)) 4) = Inr sz"
  shows "(fst (block_domain sim1 bt) pt = None \<longrightarrow> read_block sim f bt pt = Inl KeyError)
    \<and> (fst (block_domain sim1 bt) pt = Some 0 \<and> bt \<noteq> ''accel''
        \<and> unpack_I (swap sim) (f_read f (block_skip (block_sizes sim1)
                                      (take order block_keys) + 4 + sz) 4) = Inr sz
        \<and> block_sizes sim1 ''id'' = Some szi
        \<and> unpack_I (swap sim) (f_read f (block_skip (block_sizes sim1)
                                      (take 3 block_keys)) 4) = Inr szi
        \<and> unpack_I (swap sim) (f_read f (block_skip (block_sizes sim1)
                                      (take 3 block_keys) + 4 + szi) 4) = Inr szi
        \<longrightarrow> read_block sim f bt pt
            = Inr (if bt = ''id'' then Series ''id'' []
                   else DataFrame (block_columns bt) [] [], sim1))"
proof (intro conjI impI)
  assume "fst (block_domain sim1 bt) pt = None"
  from read_array_outside [OF rh bs order this lead]
  show "read_block sim f bt pt = Inl KeyError"
    by (simp add: read_block_def)
next
  assume a: "fst (block_domain sim1 bt) pt = Some 0 \<and> bt \<noteq> ''accel''
        \<and> unpack_I (swap sim) (f_read f (block_skip (block_sizes sim1)
                                      (take order block_keys) + 4 + sz) 4) = Inr sz
        \<and> block_sizes sim1 ''id'' = Some szi
        \<and> unpack_I (swap sim) (f_read f (block_skip (block_sizes sim1)
                                      (take 3 block_keys)) 4) = Inr szi
        \<and> unpack_I (swap sim) (f_read f (block_skip (block_sizes sim1)
                                      (take 3 block_keys) + 4 + szi) 4) = Inr szi"
  then have dom: "fst (block_domain sim1 bt) pt = Some 0" and na: "bt \<noteq> ''accel''"
    and trail: "unpack_I (swap sim) (f_read f (block_skip (block_sizes sim1)
                                      (take order block_keys) + 4 + sz) 4) = Inr sz"
    and bsi: "block_sizes sim1 ''id'' = Some szi"
    and leadi: "unpack_I (swap sim1) (f_read f (block_skip (block_sizes sim1)
                                      (take 3 block_keys)) 4) = Inr szi"
    and traili: "unpack_I (swap sim1) (f_read f (block_skip (block_sizes sim1)
                                      (take 3 block_keys) + 4 + szi) 4) = Inr szi"
    by (simp_all add: sw)
  from dom have n0: "particle_numbers sim1 pt = 0" by (auto dest: block_domain_value)
  have arr: "read_array sim f bt pt
           = Inr (\<lparr>shape = block_shape sim1 bt pt [], elems = []\<rparr>, sim1)"
    by (rule read_array_empty [OF rh bs order dom lead trail])
  have rh1: "read_header sim1 f = Inr sim1" using rh by (rule read_header_again)
  have oi: "index_of block_keys ''id'' = Some 3" by (simp add: block_keys_def)
  have domi: "fst (block_domain sim1 ''id'') pt = Some 0" by (simp add: block_domain_id n0)
  have ids: "read_array sim1 f ''id'' pt
           = Inr (\<lparr>shape = block_shape sim1 ''id'' pt [], elems = []\<rparr>, sim1)"
    by (rule read_array_empty [OF rh1 bsi oi domi leadi traili])
  from rh have "sim1 = file_structure (header_fields f (swap sim1) sim)"
    by (rule read_header_Inr)
  with bs have "bt \<in> set block_keys" by (metis block_sizes_dom)
  then have nacc: "bt \<noteq> ''acc''" by (auto simp: block_keys_def)
  show "read_block sim f bt pt
            = Inr (if bt = ''id'' then Series ''id'' []
                   else DataFrame (block_columns bt) [] [], sim1)"
    using arr ids empty_frame [OF na nacc n0]
    by (simp add: read_block_def)
qed

lemma record_markers_checked:
  "(file_check sim f = Inr () \<longrightarrow>
      (\<forall>i sz. i < length block_keys \<and> block_sizes sim (block_keys ! i) = Some sz \<and> 0 < sz \<longrightarrow>
         unpack_I (swap sim) (f_read f (spec_offset (block_sizes sim) (take i block_keys)) 4)
           = Inr sz
       \<and> unpack_I (swap sim)
            (f_read f (spec_offset (block_sizes sim) (take i block_keys) + 4 + sz) 4) = Inr sz))
   \<and> (read_block sim f bt pt = Inr (fr, sim') \<longrightarrow>
        (\<exists>sim1 sz order.
           read_header sim f = Inr sim1 \<and> block_sizes sim1 bt = Some sz
         \<and> index_of block_keys bt = Some order
         \<and> unpack_I (swap sim)
              (f_read f (block_skip (block_sizes sim1) (take order block_keys)) 4) = Inr sz
         \<and> unpack_I (swap sim)
              (f_read f (block_skip (block_sizes sim1) (take order block_keys) + 4 + sz) 4)
             = Inr sz))
   \<and> (read_header sim f = Inr sim1 \<and> block_sizes sim1 bt = Some sz
        \<and> index_of block_keys bt = Some order
        \<and> (unpack_I (swap sim)
              (f_read f (block_skip (block_sizes sim1) (take order block_keys)) 4) \<noteq> Inr sz
           \<or> unpack_I (swap sim)
              (f_read f (block_skip (block_sizes sim1) (take order block_keys) + 4 + sz) 4)
               \<noteq> Inr sz)
        \<longrightarrow> (\<exists>e. read_block sim f bt pt = Inl e))
   \<and> ((\<forall>k \<in> set (take order block_keys). block_sizes sim1 k \<noteq> Some 0)
        \<longrightarrow> block_skip (block_sizes sim1) (take order block_keys)
            = spec_offset (block_sizes sim1) (take order block_keys))"
proof (intro conjI impI allI)
  fix i sz
  assume fc: "file_check sim f = Inr ()"
    and i: "i < length block_keys \<and> block_sizes sim (block_keys ! i) = Some sz \<and> 0 < sz"
  from fc obtain p where "file_check_loop (block_sizes sim) (swap sim) f block_keys 0 = Inr p"
    by (auto simp: file_check_def bind_err_eq_Inr)
  from file_check_loop_markers [OF this, of i sz] i
  show "unpack_I (swap sim) (f_read f (spec_offset (block_sizes sim) (take i block_keys)) 4)
           = Inr sz"
    and "unpack_I (swap sim)
            (f_read f (spec_offset (block_sizes sim) (take i block_keys) + 4 + sz) 4) = Inr sz"
    by simp_all
next
  assume rb: "read_block sim f bt pt = Inr (fr, sim')"
  then obtain arr s1 where "read_array sim f bt pt = Inr (arr, s1)"
    using read_block_Inr by blast
  from read_array_Inr [OF this] obtain data where
    rh: "read_header sim f = Inr s1" and rp: "read_payload s1 (swap sim) f bt pt = Inr data"
    by blast
  from rh have "s1 = file_structure (header_fields f (swap s1) sim)" by (rule read_header_Inr)
  with rp read_payload_markers [of "header_fields f (swap s1) sim" "swap sim" f bt pt data] rh
  show "\<exists>sim1 sz order.
           read_header sim f = Inr sim1 \<and> block_sizes sim1 bt = Some sz
         \<and> index_of block_keys bt = Some order
         \<and> unpack_I (swap sim)
              (f_read f (block_skip (block_sizes sim1) (take order block_keys)) 4) = Inr sz
         \<and> unpack_I (swap sim)
              (f_read f (block_skip (block_sizes sim1) (take order block_keys) + 4 + sz) 4)
             = Inr sz"
    by auto
next
  assume a: "read_header sim f = Inr sim1 \<and> block_sizes sim1 bt = Some sz
        \<and> index_of block_keys bt = Some order
        \<and> (unpack_I (swap sim)
              (f_read f (block_skip (block_sizes sim1) (take order block_keys)) 4) \<noteq> Inr sz
           \<or> unpack_I (swap sim)
              (f_read f (block_skip (block_sizes sim1) (take order block_keys) + 4 + sz) 4)
               \<noteq> Inr sz)"
  show "\<exists>e. read_block sim f bt pt = Inl e"
  proof (cases "read_block sim f bt pt")
    case (Inl e)
    then show ?thesis by blast
  next
    case (Inr r)
    obtain fr' s' where r: "r = (fr', s')" by (cases r)
    with Inr obtain arr s1 where "read_array sim f bt pt = Inr (arr, s1)"
      using read_block_Inr by blast
    from read_array_Inr [OF this] obtain data where
      rh: "read_header sim f = Inr s1" and rp: "read_payload s1 (swap sim) f bt pt = Inr data"
      by blast
    from rh a have s1: "s1 = sim1" by simp
    from rh have "s1 = file_structure (header_fields f (swap s1) sim)" by (rule read_header_Inr)
    with rp read_payload_markers [of "header_fields f (swap s1) sim" "swap sim" f bt pt data]
    obtain sz' order' where
      "block_sizes s1 bt = Some sz'" "index_of block_keys bt = Some order'"
      "unpack_I (swap sim)
              (f_read f (block_skip (block_sizes s1) (take order' block_keys)) 4) = Inr sz'"
      "unpack_I (swap sim)
              (f_read f (block_skip (block_sizes s1) (take order' block_keys) + 4 + sz') 4)
             = Inr sz'"
      by auto
    with a s1 show ?thesis by auto
  qed
next
  assume "\<forall>k \<in> set (take order block_keys). block_sizes sim1 k \<noteq> Some 0"
  then show "block_skip (block_sizes sim1) (take order block_keys)
            = spec_offset (block_sizes sim1) (take order block_keys)"
    by (rule block_skip_spec_offset)
qed

lemma mk_DataFrame_Inr:
  "mk_DataFrame \<lparr>shape = [r, c], elems = block\<rparr> cols idx = Inr fr
   \<Longrightarrow> fr = DataFrame cols idx (chunks c block) \<and> c = length cols \<and> r = length idx"
  by (auto simp: mk_DataFrame_def split: if_splits)

lemma fromstring_Inr:
  "fromstring s dt d = Inr block
   \<Longrightarrow> block = map (decode_cell s dt) (chunks (itemsize dt) d)"
  by (auto simp: fromstring_def split: if_splits)

lemma set_shape_Inr:
  "set_shape block sh = Inr arr \<Longrightarrow> arr = \<lparr>shape = sh, elems = block\<rparr> \<and> prod_list sh = length block"
  by (auto simp: set_shape_def split: if_splits)

lemma map_length_chunks:
  "0 < n \<Longrightarrow> length xs = k * n \<Longrightarrow> map length (chunks n xs) = replicate k n"
proof (induction k arbitrary: xs)
  case 0
  then show ?case by simp
next
  case (Suc k)
  then have ne: "xs \<noteq> []" by auto
  from Suc.prems have "length (drop n xs) = k * n" by simp
  from Suc.IH [OF Suc.prems(1) this] Suc.prems chunks_step [OF Suc.prems(1) ne]
  show ?case by simp
qed

lemma read_array_full:
  assumes rh: "read_header sim f = Inr sim1"
    and bs: "block_sizes sim1 bt = Some sz" and order: "index_of block_keys bt = Some order"
    and dom: "fst (block_domain sim1 bt) pt = Some n"
    and lead: "unpack_I (swap sim) (f_read f (block_skip (block_sizes sim1)
                                      (take order block_keys)) 4) = Inr sz"
    and trail: "unpack_I (swap sim) (f_read f (block_skip (block_sizes sim1)
                                      (take order block_keys) + 4 + sz) 4) = Inr sz"
  shows "\<exists>data. read_payload sim1 (swap sim) f bt pt = Inr data
           \<and> length data = n * (snd (block_domain sim1 bt) * 4)"
proof -
  define sim0 where "sim0 = header_fields f (swap sim1) sim"
  from rh have s1: "sim1 = file_structure sim0"
    unfolding sim0_def by (rule read_header_Inr)
  from dom have dom0: "fst (block_domain sim0 bt) pt = Some n" by (simp add: s1)
  from read_payload_full [OF bs [unfolded s1] order dom0 lead [unfolded s1]
        trail [unfolded s1]]
  show ?thesis by (auto simp: s1)
qed

section \<open>The test snapshots evaluated\<close>

lemmas fixture_defs =
  f_read_def le32_def be32_def record_bytes_def header_bytes_def

lemma f_read_take: "pos + n \<le> m \<Longrightarrow> f_read (take m f) pos n = f_read f pos n"
  by (simp add: f_read_def drop_take min_def)

lemma header_fields_take: "header_fields (take 264 f) s sim = header_fields f s sim"
  by (simp add: header_fields_def f_read_take)

lemma read_header_take: "read_header sim (take 264 f) = read_header sim f"
  by (simp add: read_header_eq header_fields_take f_read_take Let_def cong: if_cong)

lemma read_header_append:
  "length hdr = 264 \<Longrightarrow> read_header sim (hdr @ rest) = read_header sim hdr"
  using read_header_take [of sim "hdr @ rest"] by simp

lemma length_hdr_gas1: "length hdr_gas1 = 264"
  by (simp add: hdr_gas1_def fixture_defs)

lemma sizes_hdr_gas1:
  "to_signed32 (le_nat (f_read hdr_gas1 0 4)) = 256"
  "to_signed32 (decode_nat (CHR ''<'') (f_read hdr_gas1 260 4)) = 256"
  by (simp_all add: hdr_gas1_def fixture_defs to_signed32_def decode_nat_def)

lemma read_header_hdr_gas1: "read_header no_flags hdr_gas1 = Inr sim_gas1"
  by (simp add: read_header_eq length_hdr_gas1 sim_gas1_def hf_gas1_def sizes_hdr_gas1)

lemma hf_gas1_fields:
  "particle_numbers hf_gas1
     = (\<lambda>_. 0)(Gas := 1, Halo := 0, Disk := 0, Bulge := 0, Stars := 0, Bndry := 0)"
  "particle_mass hf_gas1
     = (\<lambda>_. 0)(Gas := 0, Halo := 0, Disk := 0, Bulge := 0, Stars := 0, Bndry := 0)"
  "flags_sfr hf_gas1 = 0" "flags_feedback hf_gas1 = 0" "flags_cooling hf_gas1 = 0"
  "flags_stellar_age hf_gas1 = 0" "flags_metals hf_gas1 = 0"
  "use_longids hf_gas1 = False" "flags_pot hf_gas1 = False" "flags_accel hf_gas1 = False"
  "flags_endt hf_gas1 = False" "flags_tstp hf_gas1 = False" "swap hf_gas1 = CHR ''<''"
  by (simp_all add: hf_gas1_def header_fields_def hdr_gas1_def fixture_defs decode_nat_def
      to_signed32_def no_flags_def blank_def)

lemma counts_gas1: "total_number hf_gas1 = 1" "mass_number hf_gas1 = 1"
  by (simp_all add: total_number_def mass_number_def hf_gas1_fields particle_keys_def
      double_eq_zero_def)

lemmas block_sizes_gas1 =
  block_sizes_lookup [of hf_gas1, folded sim_gas1_def, unfolded counts_gas1 hf_gas1_fields,
    simplified]

lemma sim_gas1_fields:
  "swap sim_gas1 = CHR ''<''"
  "particle_numbers sim_gas1
     = (\<lambda>_. 0)(Gas := 1, Halo := 0, Disk := 0, Bulge := 0, Stars := 0, Bndry := 0)"
  "use_longids sim_gas1 = False"
  by (simp_all add: sim_gas1_def hf_gas1_fields)

lemma read_header_gas1_any:
  "read_header sim_gas1 (hdr_gas1 @ rest) = Inr sim_gas1"
  using read_header_hdr_gas1 [THEN read_header_again]
  by (simp add: read_header_append length_hdr_gas1)

lemma read_header_file_gas1: "read_header sim_gas1 file_gas1 = Inr sim_gas1"
  unfolding file_gas1_def by (rule read_header_gas1_any)

lemma length_file_gas1: "length file_gas1 = 364"
  by (simp add: file_gas1_def length_hdr_gas1 record_bytes_def le32_def)

lemma file_check_gas1: "file_check sim_gas1 file_gas1 = Inr ()"
  by (simp add: file_check_def block_keys_def block_sizes_gas1 sim_gas1_fields rd_I_eq
        length_file_gas1)
     (simp add: file_gas1_def hdr_gas1_def fixture_defs decode_nat_def)

lemmas payload_defs =
  read_payload_def block_keys_def block_skip_def rd_I_eq compute_offset_def block_domain_def
  particle_keys_def sum_present_def Let_def length_f_read

lemma read_payload_pos_gas1:
  "read_payload sim_gas1 (CHR ''<'') file_gas1 ''pos'' Gas = Inr (replicate 12 1)"
  by (simp add: payload_defs block_sizes_gas1 length_file_gas1 sim_gas1_fields)
     (simp add: file_gas1_def hdr_gas1_def fixture_defs decode_nat_def)

lemma read_payload_id_gas1:
  "read_payload sim_gas1 (CHR ''<'') file_gas1 ''id'' Gas = Inr (le32 7)"
  by (simp add: payload_defs block_sizes_gas1 length_file_gas1 sim_gas1_fields)
     (simp add: file_gas1_def hdr_gas1_def fixture_defs decode_nat_def)

lemmas array_defs =
  fromstring_def block_dtype_def itemsize_def chunks_step decode_cell_def decode_nat_def
  set_shape_def block_shape_def replicate_numeral

lemma read_array_pos_gas1:
  "read_array sim_gas1 file_gas1 ''pos'' Gas
     = Inr (\<lparr>shape = [1, 3], elems = [F4 0x01010101, F4 0x01010101, F4 0x01010101]\<rparr>, sim_gas1)"
  by (simp add: read_array_def read_header_file_gas1 sim_gas1_fields read_payload_pos_gas1
      array_defs)

lemma read_array_id_gas1:
  "read_array sim_gas1 file_gas1 ''id'' Gas = Inr (\<lparr>shape = [1], elems = [U4 7]\<rparr>, sim_gas1)"
  by (simp add: read_array_def read_header_file_gas1 sim_gas1_fields read_payload_id_gas1
      array_defs le32_def)

lemma read_block_pos_gas1:
  "read_block sim_gas1 file_gas1 ''pos'' Gas
     = Inr (DataFrame [''x'', ''y'', ''z''] [U4 7]
              [[F4 0x01010101, F4 0x01010101, F4 0x01010101]], sim_gas1)"
  by (simp add: read_block_def read_array_pos_gas1 read_array_id_gas1 block_columns_def
      mk_DataFrame_def chunks_step)

lemma length_hdr_age: "length hdr_age = 264"
  by (simp add: hdr_age_def fixture_defs)

lemma sizes_hdr_age:
  "to_signed32 (le_nat (f_read hdr_age 0 4)) = 256"
  "to_signed32 (decode_nat (CHR ''<'') (f_read hdr_age 260 4)) = 256"
  by (simp_all add: hdr_age_def fixture_defs to_signed32_def decode_nat_def)

lemma read_header_hdr_age: "read_header no_flags hdr_age = Inr sim_age"
  by (simp add: read_header_eq length_hdr_age sim_age_def hf_age_def sizes_hdr_age)

lemma hf_age_fields:
  "particle_numbers hf_age
     = (\<lambda>_. 0)(Gas := 1, Halo := 0, Disk := 0, Bulge := 0, Stars := 0, Bndry := 0)"
  "particle_mass hf_age
     = (\<lambda>_. 0)(Gas := 0, Halo := 0, Disk := 0, Bulge := 0, Stars := 0, Bndry := 0)"
  "flags_sfr hf_age = 0" "flags_feedback hf_age = 0" "flags_cooling hf_age = 0"
  "flags_stellar_age hf_age = 1" "flags_metals hf_age = 1"
  "use_longids hf_age = False" "flags_pot hf_age = False" "flags_accel hf_age = False"
  "flags_endt hf_age = False" "flags_tstp hf_age = False" "swap hf_age = CHR ''<''"
  by (simp_all add: hf_age_def header_fields_def hdr_age_def fixture_defs decode_nat_def
      to_signed32_def no_flags_def blank_def)

lemma counts_age: "total_number hf_age = 1" "mass_number hf_age = 1"
  by (simp_all add: total_number_def mass_number_def hf_age_fields particle_keys_def
      double_eq_zero_def)

lemmas block_sizes_age =
  block_sizes_lookup [of hf_age, folded sim_age_def, unfolded counts_age hf_age_fields,
    simplified]

lemma sim_age_fields:
  "swap sim_age = CHR ''<''"
  "particle_numbers sim_age
     = (\<lambda>_. 0)(Gas := 1, Halo := 0, Disk := 0, Bulge := 0, Stars := 0, Bndry := 0)"
  "use_longids sim_age = False"
  by (simp_all add: sim_age_def hf_age_fields)

lemma read_header_age_any:
  "read_header sim_age (hdr_age @ rest) = Inr sim_age"
  "read_header no_flags (hdr_age @ rest) = Inr sim_age"
  using read_header_hdr_age [THEN read_header_again] read_header_hdr_age
  by (simp_all add: read_header_append length_hdr_age)

lemma length_file_age: "length file_age = 420"
  by (simp add: file_age_def length_hdr_age record_bytes_def le32_def)

lemma file_check_age: "file_check sim_age file_age = Inr ()"
  by (simp add: file_check_def block_keys_def block_sizes_age sim_age_fields rd_I_eq
        length_file_age)
     (simp add: file_age_def hdr_age_def fixture_defs decode_nat_def)

lemma init_age: "Simulation_init file_age False False False False False False = Inr sim_age"
  using read_header_age_any(2) [of "drop 264 file_age"] file_check_age
  by (simp add: Simulation_init_def no_flags_def [symmetric] file_age_def length_hdr_age)

lemma read_header_file_age: "read_header sim_age file_age = Inr sim_age"
  unfolding file_age_def by (rule read_header_age_any)

lemma read_array_metals_age:
  "read_array sim_age file_age ''metals'' Gas = Inl (read_error ''metals'')"
  by (simp add: read_array_def read_header_file_age sim_age_fields payload_defs
        block_sizes_age length_file_age)
     (simp add: file_age_def f_read_def length_hdr_age record_bytes_def le32_def decode_nat_def
        replicate_numeral)

lemma hf_acc_same:
  "particle_numbers hf_acc = particle_numbers hf_gas1"
  "particle_mass hf_acc = particle_mass hf_gas1"
  by (simp_all add: hf_acc_def hf_gas1_def header_fields_def)

lemma hf_acc_fields:
  "particle_numbers hf_acc
     = (\<lambda>_. 0)(Gas := 1, Halo := 0, Disk := 0, Bulge := 0, Stars := 0, Bndry := 0)"
  "particle_mass hf_acc
     = (\<lambda>_. 0)(Gas := 0, Halo := 0, Disk := 0, Bulge := 0, Stars := 0, Bndry := 0)"
  "flags_sfr hf_acc = 0" "flags_feedback hf_acc = 0" "flags_cooling hf_acc = 0"
  "flags_stellar_age hf_acc = 0" "flags_metals hf_acc = 0"
  "use_longids hf_acc = False" "flags_pot hf_acc = False" "flags_accel hf_acc = True"
  "flags_endt hf_acc = False" "flags_tstp hf_acc = False" "swap hf_acc = CHR ''<''"
  using hf_gas1_fields
  by (simp_all add: hf_acc_same)
    (simp_all add: hf_acc_def hf_gas1_def header_fields_def accel_flag_def no_flags_def
      blank_def)

lemma counts_acc: "total_number hf_acc = 1" "mass_number hf_acc = 1"
  by (simp_all add: total_number_def mass_number_def hf_acc_fields particle_keys_def
      double_eq_zero_def)

lemmas block_sizes_acc =
  block_sizes_lookup [of hf_acc, folded sim_acc_def, unfolded counts_acc hf_acc_fields,
    simplified]

lemma sim_acc_fields:
  "swap sim_acc = CHR ''<''"
  "particle_numbers sim_acc
     = (\<lambda>_. 0)(Gas := 1, Halo := 0, Disk := 0, Bulge := 0, Stars := 0, Bndry := 0)"
  "use_longids sim_acc = False"
  by (simp_all add: sim_acc_def hf_acc_fields)

lemma read_header_accel_flag: "read_header accel_flag hdr_gas1 = Inr sim_acc"
  by (simp add: read_header_eq length_hdr_gas1 sim_acc_def hf_acc_def sizes_hdr_gas1)

lemma read_header_acc_any:
  "read_header sim_acc (hdr_gas1 @ rest) = Inr sim_acc"
  "read_header accel_flag (hdr_gas1 @ rest) = Inr sim_acc"
  using read_header_accel_flag [THEN read_header_again] read_header_accel_flag
  by (simp_all add: read_header_append length_hdr_gas1)

lemma file_acc_eq: "file_acc = hdr_gas1 @ drop 264 file_acc"
  by (simp add: file_acc_def file_gas1_def length_hdr_gas1)

lemma length_file_acc: "length file_acc = 384"
  by (simp add: file_acc_def length_file_gas1 record_bytes_def le32_def)

lemma file_check_acc: "file_check sim_acc file_acc = Inr ()"
  by (simp add: file_check_def block_keys_def block_sizes_acc sim_acc_fields rd_I_eq
        length_file_acc)
     (simp add: file_acc_def file_gas1_def hdr_gas1_def fixture_defs decode_nat_def)

lemma init_acc: "Simulation_init file_acc False True False False False False = Inr sim_acc"
  using read_header_acc_any(2) [of "drop 264 file_acc"] file_check_acc
  by (simp add: Simulation_init_def accel_flag_def [symmetric] file_acc_eq [symmetric])

lemma read_header_file_acc: "read_header sim_acc file_acc = Inr sim_acc"
  using read_header_acc_any(1) [of "drop 264 file_acc"] by (simp add: file_acc_eq [symmetric])

lemma read_payload_accel_acc:
  "read_payload sim_acc (CHR ''<'') file_acc ''accel'' Gas = Inr (replicate 12 9)"
  by (simp add: payload_defs block_sizes_acc length_file_acc sim_acc_fields)
     (simp add: file_acc_def file_gas1_def f_read_def length_hdr_gas1 record_bytes_def le32_def
        decode_nat_def)

lemma read_payload_id_acc:
  "read_payload sim_acc (CHR ''<'') file_acc ''id'' Gas = Inr (le32 7)"
  by (simp add: payload_defs block_sizes_acc length_file_acc sim_acc_fields)
     (simp add: file_acc_def file_gas1_def f_read_def length_hdr_gas1 record_bytes_def le32_def
        decode_nat_def)

lemma read_array_accel_acc:
  "read_array sim_acc file_acc ''accel'' Gas
     = Inr (\<lparr>shape = [3], elems = [F4 0x09090909, F4 0x09090909, F4 0x09090909]\<rparr>, sim_acc)"
  by (simp add: read_array_def read_header_file_acc sim_acc_fields read_payload_accel_acc
      array_defs)

lemma read_array_id_acc:
  "read_array sim_acc file_acc ''id'' Gas = Inr (\<lparr>shape = [1], elems = [U4 7]\<rparr>, sim_acc)"
  by (simp add: read_array_def read_header_file_acc sim_acc_fields read_payload_id_acc
      array_defs le32_def)

lemma markers_gas1:
  "unpack_I (CHR ''<'') (f_read file_gas1 264 4) = Inr 12"
  "unpack_I (CHR ''<'') (f_read file_gas1 280 4) = Inr 12"
  "unpack_I (CHR ''<'') (f_read file_gas1 304 4) = Inr 4"
  "unpack_I (CHR ''<'') (f_read file_gas1 312 4) = Inr 4"
  "unpack_I (CHR ''<'') (f_read file_gas1 340 4) = Inr 4"
  by (simp_all add: unpack_I_def decode_nat_def file_gas1_def f_read_def length_hdr_gas1
      record_bytes_def le32_def)

lemma length_hdr_c1: "length hdr_c1 = 264"
  by (simp add: hdr_c1_def fixture_defs)

lemma sizes_hdr_c1:
  "to_signed32 (le_nat (f_read hdr_c1 0 4)) = 256"
  "to_signed32 (decode_nat (CHR ''<'') (f_read hdr_c1 260 4)) = 256"
  by (simp_all add: hdr_c1_def fixture_defs to_signed32_def decode_nat_def)

lemma read_header_hdr_c1: "read_header no_flags hdr_c1 = Inr sim_c1"
  by (simp add: read_header_eq length_hdr_c1 sim_c1_def hf_c1_def sizes_hdr_c1)

lemma hf_c1_fields:
  "particle_numbers hf_c1
     = (\<lambda>_. 0)(Gas := 100, Halo := 50, Disk := 0, Bulge := 0, Stars := 10, Bndry := 0)"
  "particle_mass hf_c1
     = (\<lambda>_. 0)(Gas := 0, Halo := 0, Disk := 0, Bulge := 0, Stars := 0, Bndry := 0)"
  "flags_sfr hf_c1 = 1" "flags_feedback hf_c1 = 0" "flags_cooling hf_c1 = 1"
  "flags_stellar_age hf_c1 = 1" "flags_metals hf_c1 = 1"
  "use_longids hf_c1 = False" "flags_pot hf_c1 = False" "flags_accel hf_c1 = False"
  "flags_endt hf_c1 = False" "flags_tstp hf_c1 = False" "swap hf_c1 = CHR ''<''"
  by (simp_all add: hf_c1_def header_fields_def hdr_c1_def fixture_defs decode_nat_def
      to_signed32_def no_flags_def blank_def)

lemma counts_c1: "total_number hf_c1 = 160" "mass_number hf_c1 = 160"
  by (simp_all add: total_number_def mass_number_def hf_c1_fields particle_keys_def
      double_eq_zero_def)

lemmas block_sizes_c1 =
  block_sizes_lookup [of hf_c1, folded sim_c1_def, unfolded counts_c1 hf_c1_fields,
    simplified]

lemma sim_c1_fields:
  "swap sim_c1 = CHR ''<''"
  "particle_numbers sim_c1
     = (\<lambda>_. 0)(Gas := 100, Halo := 50, Disk := 0, Bulge := 0, Stars := 10, Bndry := 0)"
  "use_longids sim_c1 = False"
  "flags_sfr sim_c1 = 1" "flags_cooling sim_c1 = 1"
  "flags_stellar_age sim_c1 = 1" "flags_metals sim_c1 = 1"
  by (simp_all add: sim_c1_def hf_c1_fields file_structure_def Let_def
      split: prod.splits)

lemma read_header_c1_any:
  "read_header sim_c1 (hdr_c1 @ rest) = Inr sim_c1"
  "read_header no_flags (hdr_c1 @ rest) = Inr sim_c1"
  using read_header_hdr_c1 [THEN read_header_again] read_header_hdr_c1
  by (simp_all add: read_header_append length_hdr_c1)

lemma read_header_file_c1: "read_header sim_c1 file_c1 = Inr sim_c1"
  unfolding file_c1_def by (rule read_header_c1_any)

lemma length_file_c1: "length file_c1 = 13200"
  by (simp add: file_c1_def length_hdr_c1 record_bytes_def le32_def)

lemma file_check_c1: "file_check sim_c1 file_c1 = Inr ()"
  by (simp add: file_check_def block_keys_def block_sizes_c1 sim_c1_fields rd_I_eq
        length_file_c1)
     (simp add: file_c1_def hdr_c1_def fixture_defs decode_nat_def)

lemma init_c1: "Simulation_init file_c1 False False False False False False = Inr sim_c1"
  using read_header_c1_any(2) [of "drop 264 file_c1"] file_check_c1
  by (simp add: Simulation_init_def no_flags_def [symmetric] file_c1_def length_hdr_c1)

lemma read_payload_pos_c1:
  "read_payload sim_c1 (CHR ''<'') file_c1 ''pos'' Stars = Inr (replicate 120 1)"
  by (simp add: payload_defs block_sizes_c1 length_file_c1 sim_c1_fields)
     (simp add: file_c1_def f_read_def length_hdr_c1 record_bytes_def le32_def decode_nat_def)

lemma read_payload_id_c1:
  "read_payload sim_c1 (CHR ''<'') file_c1 ''id'' Stars = Inr (replicate 40 0)"
  by (simp add: payload_defs block_sizes_c1 length_file_c1 sim_c1_fields)
     (simp add: file_c1_def f_read_def length_hdr_c1 record_bytes_def le32_def decode_nat_def)

lemma read_header_file_shift: "read_header sim_age file_shift = Inr sim_age"
  "read_header no_flags file_shift = Inr sim_age"
  unfolding file_shift_def by (rule read_header_age_any)+

lemma length_file_shift: "length file_shift = 428"
  by (simp add: file_shift_def length_hdr_age record_bytes_def le32_def)

lemma markers_file_shift:
  "unpack_I (CHR ''<'') (f_read file_shift 364 4) = Inr 99"
  "unpack_I (CHR ''<'') (f_read file_shift (364 + 4 + 48) 4) = Inr 77"
  by (simp_all add: unpack_I_def decode_nat_def file_shift_def f_read_def length_hdr_age
      record_bytes_def le32_def)

lemma file_check_shift: "file_check sim_age file_shift = Inl (block_error ''metals'')"
  by (simp add: file_check_def block_keys_def block_sizes_age sim_age_fields rd_I_eq
        length_file_shift file_shift_def hdr_age_def fixture_defs decode_nat_def)

lemma init_shift: "Simulation_init file_shift False False False False True False = Inr sim_age"
  using read_header_file_shift(2)
  by (simp add: Simulation_init_def no_flags_def [symmetric])

lemma read_payload_metals_shift:
  "read_payload sim_age (CHR ''<'') file_shift ''metals'' Gas
     = Inr (replicate 40 8 @ le32 77 @ replicate 4 8)"
  by (simp add: payload_defs block_sizes_age length_file_shift sim_age_fields element_keys_def)
     (simp add: file_shift_def f_read_def length_hdr_age record_bytes_def le32_def
        decode_nat_def)

lemma read_payload_id_shift:
  "read_payload sim_age (CHR ''<'') file_shift ''id'' Gas = Inr (le32 7)"
  by (simp add: payload_defs block_sizes_age length_file_shift sim_age_fields)
     (simp add: file_shift_def f_read_def length_hdr_age record_bytes_def le32_def
        decode_nat_def)

lemma read_array_metals_shift:
  "read_array sim_age file_shift ''metals'' Gas
     = Inr (\<lparr>shape = [1, 12],
             elems = [F4 0x08080808, F4 0x08080808, F4 0x08080808, F4 0x08080808,
                      F4 0x08080808, F4 0x08080808, F4 0x08080808, F4 0x08080808,
                      F4 0x08080808, F4 0x08080808, F4 77, F4 0x08080808]\<rparr>, sim_age)"
  by (simp add: read_array_def read_header_file_shift sim_age_fields read_payload_metals_shift
      array_defs le32_def element_keys_def)

lemma read_array_id_shift:
  "read_array sim_age file_shift ''id'' Gas = Inr (\<lparr>shape = [1], elems = [U4 7]\<rparr>, sim_age)"
  by (simp add: read_array_def read_header_file_shift sim_age_fields read_payload_id_shift
      array_defs le32_def)

lemma le_nat_ones: "le_nat (replicate 4 1) = 16843009"
  by (simp add: replicate_numeral)

lemma read_array_pos_c1:
  "read_array sim_c1 file_c1 ''pos'' Stars
     = Inr (\<lparr>shape = [10, 3], elems = replicate 30 (F4 0x01010101)\<rparr>, sim_c1)"
  using chunks_replicate [of 4 30 "1 :: byte"]
  by (simp add: read_array_def read_header_file_c1 sim_c1_fields read_payload_pos_c1
      fromstring_def block_dtype_def itemsize_def decode_cell_def decode_nat_def
      set_shape_def block_shape_def le_nat_ones)

lemma read_array_id_c1:
  "read_array sim_c1 file_c1 ''id'' Stars
     = Inr (\<lparr>shape = [10], elems = replicate 10 (U4 0)\<rparr>, sim_c1)"
  using chunks_replicate [of 4 10 "0 :: byte"]
  by (simp add: read_array_def read_header_file_c1 sim_c1_fields read_payload_id_c1
      fromstring_def block_dtype_def itemsize_def decode_cell_def decode_nat_def
      set_shape_def block_shape_def)

lemma read_block_pos_c1:
  "read_block sim_c1 file_c1 ''pos'' Stars
     = Inr (DataFrame [''x'', ''y'', ''z''] (replicate 10 (U4 0))
              (replicate 10 (replicate 3 (F4 0x01010101))), sim_c1)"
  using chunks_replicate [of 3 10 "F4 0x01010101"]
  by (simp add: read_block_def read_array_pos_c1 read_array_id_c1 block_columns_def
      mk_DataFrame_def)

section \<open>Claims\<close>

text \<open>
  Claim C4. \<open>_read_header\<close> reads a 4-byte size in native (little-endian) order. When it
  is 256 the byte order of the handle is \<open>'<'\<close>; when it is 65536, which is 256 with its
  four bytes swapped, the byte order is \<open>'>'\<close>; any other value raises the header error.
  After the 256 bytes of the header the 4-byte size read in the detected order must be 256,
  the value the leading size has in that order, or the header error is raised. A header
  that is read has both sizes equal to 256 in the byte order of the handle.
\<close>

theorem C4_header_sentinel:
  "(read_header sim f = Inr sim' \<longrightarrow>
      (unpack_i (CHR ''<'') (f_read f 0 4) = Inr 256 \<and> swap sim' = CHR ''<''
       \<or> unpack_i (CHR ''<'') (f_read f 0 4) = Inr 65536 \<and> swap sim' = CHR ''>'')
      \<and> unpack_i (swap sim') (f_read f 0 4) = Inr 256
      \<and> unpack_i (swap sim') (f_read f 260 4) = Inr 256)
   \<and> (unpack_i (CHR ''<'') (f_read f 0 4) = Inr v \<and> v \<noteq> 256 \<and> v \<noteq> 65536
        \<longrightarrow> read_header sim f = Inl header_error)
   \<and> (unpack_i (CHR ''<'') (f_read f 0 4) = Inr 256
        \<and> unpack_i (CHR ''<'') (f_read f 260 4) = Inr w \<and> w \<noteq> 256
        \<longrightarrow> read_header sim f = Inl header_error)
   \<and> (unpack_i (CHR ''<'') (f_read f 0 4) = Inr 65536
        \<and> unpack_i (CHR ''>'') (f_read f 260 4) = Inr w \<and> w \<noteq> 256
        \<longrightarrow> read_header sim f = Inl header_error)
   \<and> (unpack_i (CHR ''>'') d = Inr 256 \<longleftrightarrow> unpack_i (CHR ''<'') d = Inr 65536)"
proof (intro conjI impI)
  assume ok: "read_header sim f = Inr sim'"
  let ?size = "to_signed32 (le_nat (f_read f 0 4))"
  from ok have len: "264 \<le> length f" and sz: "?size = 65536 \<or> ?size = 256"
    by (auto simp: read_header_eq Let_def split: if_splits)
  from ok have sw: "swap sim' = (if ?size = 65536 then CHR ''>'' else CHR ''<'')"
    by (auto simp: read_header_eq Let_def split: if_splits)
  from ok have tr: "to_signed32 (decode_nat (swap sim') (f_read f 260 4)) = 256"
    by (auto simp: read_header_eq Let_def split: if_splits)
  have l0: "length (f_read f 0 4) = 4" and l260: "length (f_read f 260 4) = 4"
    using len by (simp_all add: length_f_read)
  have lead: "unpack_i (CHR ''<'') (f_read f 0 4) = Inr ?size"
    using l0 by (simp add: unpack_i_def decode_nat_def)
  show "unpack_i (CHR ''<'') (f_read f 0 4) = Inr 256 \<and> swap sim' = CHR ''<''
       \<or> unpack_i (CHR ''<'') (f_read f 0 4) = Inr 65536 \<and> swap sim' = CHR ''>''"
    using sz sw lead by auto
  show "unpack_i (swap sim') (f_read f 0 4) = Inr 256"
  proof (cases "?size = 65536")
    case True
    then have "unpack_i (CHR ''<'') (f_read f 0 4) = Inr 65536" using lead by simp
    then show ?thesis using True sw unpack_i_swapped [of "f_read f 0 4"] by simp
  next
    case False
    then show ?thesis using sz sw lead by simp
  qed
  show "unpack_i (swap sim') (f_read f 260 4) = Inr 256"
    using tr l260 by (simp add: unpack_i_def)
next
  assume "unpack_i (CHR ''<'') (f_read f 0 4) = Inr v \<and> v \<noteq> 256 \<and> v \<noteq> 65536"
  then show "read_header sim f = Inl header_error"
    by (auto simp: read_header_eq unpack_i_def decode_nat_def length_f_read Let_def
        split: if_splits)
next
  assume "unpack_i (CHR ''<'') (f_read f 0 4) = Inr 256
        \<and> unpack_i (CHR ''<'') (f_read f 260 4) = Inr w \<and> w \<noteq> 256"
  then show "read_header sim f = Inl header_error"
    by (auto simp: read_header_eq unpack_i_def decode_nat_def length_f_read Let_def
        split: if_splits)
next
  assume "unpack_i (CHR ''<'') (f_read f 0 4) = Inr 65536
        \<and> unpack_i (CHR ''>'') (f_read f 260 4) = Inr w \<and> w \<noteq> 256"
  then show "read_header sim f = Inl header_error"
    by (auto simp: read_header_eq unpack_i_def decode_nat_def length_f_read Let_def
        split: if_splits)
qed (simp_all add: unpack_i_swapped)

lemma read_header_hdr_be: "read_header no_flags hdr_be = Inr sim_be"
  by (simp add: read_header_eq sim_be_def hdr_be_def fixture_defs to_signed32_def
      decode_nat_def be_nat_def)

theorem C4_header_sentinel_witness:
  "read_header no_flags hdr_gas1 = Inr sim_gas1
   \<and> unpack_i (CHR ''<'') (f_read hdr_gas1 0 4) = Inr 256 \<and> swap sim_gas1 = CHR ''<''
   \<and> unpack_i (swap sim_gas1) (f_read hdr_gas1 260 4) = Inr 256
   \<and> read_header no_flags hdr_be = Inr sim_be
   \<and> unpack_i (CHR ''<'') (f_read hdr_be 0 4) = Inr 65536 \<and> swap sim_be = CHR ''>''
   \<and> unpack_i (swap sim_be) (f_read hdr_be 260 4) = Inr 256
   \<and> unpack_i (CHR ''<'') (f_read hdr_bad_lead 0 4) = Inr 7
   \<and> read_header no_flags hdr_bad_lead = Inl header_error
   \<and> unpack_i (CHR ''<'') (f_read hdr_bad_trail_le 260 4) = Inr 7
   \<and> read_header no_flags hdr_bad_trail_le = Inl header_error
   \<and> unpack_i (CHR ''>'') (f_read hdr_bad_trail_be 260 4) = Inr 7
   \<and> read_header no_flags hdr_bad_trail_be = Inl header_error"
proof -
  have a: "unpack_i (CHR ''<'') (f_read hdr_bad_lead 0 4) = Inr 7 \<and> (7::int) \<noteq> 256 \<and> (7::int) \<noteq> 65536"
    by (simp add: hdr_bad_lead_def fixture_defs unpack_i_def to_signed32_def decode_nat_def)
  have b: "unpack_i (CHR ''<'') (f_read hdr_bad_trail_le 0 4) = Inr 256
        \<and> unpack_i (CHR ''<'') (f_read hdr_bad_trail_le 260 4) = Inr 7 \<and> (7::int) \<noteq> 256"
    by (simp add: hdr_bad_trail_le_def fixture_defs unpack_i_def to_signed32_def decode_nat_def)
  have c: "unpack_i (CHR ''<'') (f_read hdr_bad_trail_be 0 4) = Inr 65536
        \<and> unpack_i (CHR ''>'') (f_read hdr_bad_trail_be 260 4) = Inr 7 \<and> (7::int) \<noteq> 256"
    by (simp add: hdr_bad_trail_be_def fixture_defs unpack_i_def to_signed32_def decode_nat_def
        be_nat_def)
  have d: "swap sim_gas1 = CHR ''<''" "swap sim_be = CHR ''>''"
    by (simp_all add: sim_gas1_fields sim_be_def)
  show ?thesis
    using C4_header_sentinel [of no_flags hdr_gas1 sim_gas1 7 7]
      C4_header_sentinel [of no_flags hdr_be sim_be 7 7]
      C4_header_sentinel [of no_flags hdr_bad_lead sim_gas1 7 7]
      C4_header_sentinel [of no_flags hdr_bad_trail_le sim_gas1 7 7]
      C4_header_sentinel [of no_flags hdr_bad_trail_be sim_gas1 7 7]
      read_header_hdr_gas1 read_header_hdr_be a b c d
    by simp
qed

text \<open>
  Claim C3 says that a block whose leading or trailing size differs from the computed
  size cannot be read. \<open>read_block\<close> compares the computed size with the four bytes at the
  offset it seeks to and with the four bytes a payload further (lemma
  \<open>record_markers_checked\<close>); that offset is the place of the leading size only when no
  earlier key is held with size zero (see claim C2). In \<open>file_shift\<close> the key \<open>age\<close> has
  size 0 and both sizes around the \<open>metals\<close> payload, at the offsets 364 and 416, are
  damaged: \<open>_file_check\<close> rejects the file, and \<open>read_block\<close>, which compares the bytes
  at 372 and 424, returns a frame for the \<open>metals\<close> block.
\<close>

theorem C3_damaged_markers_accepted:
  "Simulation_init file_shift False False False False True False = Inr sim_age
   \<and> block_sizes sim_age ''metals'' = Some 48
   \<and> spec_offset (block_sizes sim_age) (take 12 block_keys) = 364
   \<and> unpack_I (swap sim_age) (f_read file_shift 364 4) = Inr 99
   \<and> unpack_I (swap sim_age) (f_read file_shift (364 + 4 + 48) 4) = Inr 77
   \<and> file_check sim_age file_shift = Inl (block_error ''metals'')
   \<and> block_skip (block_sizes sim_age) (take 12 block_keys) = 372
   \<and> read_block sim_age file_shift ''metals'' Gas
       = Inr (DataFrame element_keys [U4 7]
                [[F4 0x08080808, F4 0x08080808, F4 0x08080808, F4 0x08080808,
                  F4 0x08080808, F4 0x08080808, F4 0x08080808, F4 0x08080808,
                  F4 0x08080808, F4 0x08080808, F4 77, F4 0x08080808]], sim_age)"
proof -
  have "spec_offset (block_sizes sim_age) (take 12 block_keys) = 364"
    "block_skip (block_sizes sim_age) (take 12 block_keys) = 372"
    by (simp_all add: block_keys_def spec_offset_def block_skip_def block_sizes_age)
  moreover have "read_block sim_age file_shift ''metals'' Gas
       = Inr (DataFrame element_keys [U4 7]
                [[F4 0x08080808, F4 0x08080808, F4 0x08080808, F4 0x08080808,
                  F4 0x08080808, F4 0x08080808, F4 0x08080808, F4 0x08080808,
                  F4 0x08080808, F4 0x08080808, F4 77, F4 0x08080808]], sim_age)"
    by (simp add: read_block_def read_array_metals_shift read_array_id_shift block_columns_def
        mk_DataFrame_def chunks_step element_keys_def)
  ultimately show ?thesis
    using init_shift file_check_shift markers_file_shift
    by (simp add: block_sizes_age sim_age_fields)
qed

text \<open>
  Claim C2 says that \<open>read_block\<close> seeks to the sum of \<open>size + 8\<close> over the present
  (size above zero) blocks before the requested one, an absent block counting for nothing.
  The loop of \<open>read_block\<close> adds \<open>size + 8\<close> for every earlier key that \<open>block_sizes\<close>
  holds, so a key held with size 0 adds 8 bytes, while \<open>_file_check\<close> passes such a key
  over. In the snapshot \<open>file_age\<close>, which the constructor accepts, the key \<open>age\<close> has
  size 0: the block \<open>metals\<close> lies at offset 364 between two sizes of 48, \<open>read_block\<close>
  seeks to 372 and raises the block error.
\<close>

theorem C2_offset_counts_empty_block:
  "Simulation_init file_age False False False False False False = Inr sim_age
   \<and> block_sizes sim_age ''age'' = Some 0
   \<and> block_sizes sim_age ''metals'' = Some 48
   \<and> index_of block_keys ''metals'' = Some 12
   \<and> spec_offset (block_sizes sim_age) (take 12 block_keys) = 364
   \<and> block_skip (block_sizes sim_age) (take 12 block_keys) = 372
   \<and> unpack_I (swap sim_age) (f_read file_age 364 4) = Inr 48
   \<and> unpack_I (swap sim_age) (f_read file_age (364 + 4 + 48) 4) = Inr 48
   \<and> read_block sim_age file_age ''metals'' Gas = Inl (read_error ''metals'')"
proof -
  have "spec_offset (block_sizes sim_age) (take 12 block_keys) = 364"
    "block_skip (block_sizes sim_age) (take 12 block_keys) = 372"
    "index_of block_keys ''metals'' = Some 12"
    by (simp_all add: block_keys_def spec_offset_def block_skip_def block_sizes_age)
  moreover have "unpack_I (swap sim_age) (f_read file_age 364 4) = Inr 48"
    "unpack_I (swap sim_age) (f_read file_age (364 + 4 + 48) 4) = Inr 48"
    by (simp_all add: sim_age_fields unpack_I_def decode_nat_def file_age_def f_read_def
        length_hdr_age record_bytes_def le32_def)
  moreover have "read_block sim_age file_age ''metals'' Gas = Inl (read_error ''metals'')"
    by (simp add: read_block_def read_array_metals_age)
  ultimately show ?thesis
    using init_age by (simp add: block_sizes_age)
qed

text \<open>
  Claim C7 says that \<open>read_block\<close> gives the vector blocks \<open>pos\<close>, \<open>vel\<close> and \<open>accel\<close>
  rows of three columns. The shape \<open>(ydim, 3)\<close> is assigned when the block type is in the
  list \<open>["pos", "vel", "acc"]\<close>, which does not hold \<open>accel\<close>, while the column names and
  \<open>_compute_offset\<close> test for \<open>accel\<close>. For the acceleration block of one gas particle the
  array keeps its one-dimensional shape of three elements, and building the frame of three
  columns over one identifier raises \<open>ValueError\<close>.
\<close>

theorem C7_accel_not_reshaped:
  "Simulation_init file_acc False True False False False False = Inr sim_acc
   \<and> particle_numbers sim_acc Gas = 1
   \<and> block_sizes sim_acc ''accel'' = Some 12
   \<and> read_array sim_acc file_acc ''accel'' Gas
       = Inr (\<lparr>shape = [3], elems = [F4 0x09090909, F4 0x09090909, F4 0x09090909]\<rparr>, sim_acc)
   \<and> block_columns ''accel'' = [''x'', ''y'', ''z'']
   \<and> read_block sim_acc file_acc ''accel'' Gas = Inl ValueError"
  by (simp add: init_acc sim_acc_fields block_sizes_acc read_array_accel_acc read_block_def
      read_array_id_acc block_columns_def mk_DataFrame_def)

text \<open>
  Claim C6, amended. A particle type is in the domain of the mass block exactly when its
  header mass is zero and its count is not zero; a type in the domain contributes its count
  of rows, the size of the mass block is four bytes for each row of the types in the domain,
  a type with a non-zero header mass is never in the domain (asking for it raises
  \<open>KeyError\<close>), and a type with zero header mass and a non-zero count always is.
\<close>

theorem C6_mass_domain:
  "(k \<in> dom (fst (block_domain sim ''mass''))
      \<longleftrightarrow> double_eq_zero (particle_mass sim k) \<and> particle_numbers sim k \<noteq> 0)
   \<and> (fst (block_domain sim ''mass'') k = Some n \<longrightarrow> n = particle_numbers sim k)
   \<and> block_sizes (file_structure sim) ''mass''
       = Some (sum_list (map (particle_numbers sim)
                 (filter (\<lambda>k. k \<in> dom (fst (block_domain sim ''mass''))) particle_keys)) * 4)
   \<and> (\<not> double_eq_zero (particle_mass sim k) \<longrightarrow> compute_offset sim ''mass'' k = Inl KeyError)
   \<and> (double_eq_zero (particle_mass sim k) \<and> particle_numbers sim k \<noteq> 0 \<longrightarrow>
        (\<exists>off rem. compute_offset sim ''mass'' k = Inr (off, particle_numbers sim k * 4, rem)))"
proof (intro conjI impI)
  show "k \<in> dom (fst (block_domain sim ''mass''))
      \<longleftrightarrow> double_eq_zero (particle_mass sim k) \<and> particle_numbers sim k \<noteq> 0"
    by (simp add: block_domain_mass mass_domain_dom)
  show "n = particle_numbers sim k" if "fst (block_domain sim ''mass'') k = Some n"
    using that by (simp add: block_domain_mass mass_domain_eq split: if_splits)
  have "mass_number sim
      = sum_list (map (particle_numbers sim)
          (filter (\<lambda>k. k \<in> dom (mass_domain sim)) particle_keys))"
    unfolding mass_number_def mass_domain_dom sum_list_map_filter'
    by (simp add: conj_commute)
  then show "block_sizes (file_structure sim) ''mass''
       = Some (sum_list (map (particle_numbers sim)
                 (filter (\<lambda>k. k \<in> dom (fst (block_domain sim ''mass''))) particle_keys)) * 4)"
    by (simp add: block_sizes_lookup block_domain_mass)
  show "compute_offset sim ''mass'' k = Inl KeyError" if "\<not> double_eq_zero (particle_mass sim k)"
    using that by (intro compute_offset_outside) (simp add: block_domain_mass mass_domain_eq)
  show "\<exists>off rem. compute_offset sim ''mass'' k = Inr (off, particle_numbers sim k * 4, rem)"
    if "double_eq_zero (particle_mass sim k) \<and> particle_numbers sim k \<noteq> 0"
    using that compute_offset_inside [of sim "''mass''" k "particle_numbers sim k"]
    by (simp add: block_domain_mass mass_domain_eq)
qed

theorem C6_mass_domain_witness:
  "double_eq_zero (particle_mass hf_gas1 Gas) \<and> particle_numbers hf_gas1 Gas \<noteq> 0
   \<and> Gas \<in> dom (fst (block_domain hf_gas1 ''mass''))
   \<and> fst (block_domain hf_gas1 ''mass'') Gas = Some 1
   \<and> block_sizes sim_gas1 ''mass'' = Some 4
   \<and> compute_offset hf_gas1 ''mass'' Gas = Inr (0, 4, 0)"
proof -
  have z: "double_eq_zero (particle_mass hf_gas1 Gas) \<and> particle_numbers hf_gas1 Gas \<noteq> 0"
    by (simp add: hf_gas1_fields double_eq_zero_def)
  have d: "fst (block_domain hf_gas1 ''mass'') Gas = Some 1"
    using z by (simp add: block_domain_mass mass_domain_eq hf_gas1_fields)
  have m: "mass_domain hf_gas1 = Map.empty(Gas \<mapsto> 1)"
    by (rule ext) (simp add: mass_domain_eq hf_gas1_fields double_eq_zero_def)
  have c: "compute_offset hf_gas1 ''mass'' Gas = Inr (0, 4, 0)"
    by (simp add: compute_offset_def block_domain_mass m particle_keys_def sum_present_def)
  have "Gas \<in> dom (fst (block_domain hf_gas1 ''mass''))"
    by (rule C6_mass_domain [of Gas hf_gas1 1, THEN conjunct1, THEN iffD2, OF z])
  with z d c show ?thesis
    by (simp add: block_sizes_gas1)
qed

text \<open>
  The claim as stated fails for a type with zero header mass and no particle: in the
  snapshot of one gas particle the header mass of the halo type is zero, and the type is
  not in the domain of the mass block.
\<close>

theorem C6_zero_count_counterexample:
  "double_eq_zero (particle_mass sim_gas1 Halo)
   \<and> Halo \<notin> dom (fst (block_domain sim_gas1 ''mass''))
   \<and> compute_offset sim_gas1 ''mass'' Halo = Inl KeyError"
proof -
  have "double_eq_zero (particle_mass sim_gas1 Halo)" "particle_numbers sim_gas1 Halo = 0"
    by (simp_all add: sim_gas1_def hf_gas1_fields double_eq_zero_def)
  then show ?thesis
    by (simp add: block_domain_mass mass_domain_dom compute_offset_outside mass_domain_eq)
qed

text \<open>
  Claim C5, amended. Let the header be readable, the handle have the byte order of the
  file, and the file pass \<open>_file_check\<close>, so that every present block lies between two
  sizes equal to its computed size. Let the block be present (its size is above zero) and
  let no key before it in \<open>block_keys\<close> be held in \<open>block_sizes\<close> with size zero. Then
  for a particle type outside the domain of the block \<open>read_block\<close> raises \<open>KeyError\<close>;
  and for a particle type inside the domain with no particle, the block not being
  \<open>accel\<close>, it returns an empty result: the empty series for \<open>id\<close>, and a frame with the
  columns of the block and no row for every other block.
\<close>

theorem C5_zero_particles:
  assumes rh: "read_header sim f = Inr sim1" and sw: "swap sim = swap sim1"
    and fc: "file_check sim1 f = Inr ()"
    and bs: "block_sizes sim1 bt = Some sz" and present: "0 < sz"
    and order: "index_of block_keys bt = Some order"
    and nz: "\<forall>k \<in> set (take order block_keys). block_sizes sim1 k \<noteq> Some 0"
  shows "(fst (block_domain sim1 bt) pt = None \<longrightarrow> read_block sim f bt pt = Inl KeyError)
    \<and> (fst (block_domain sim1 bt) pt = Some 0 \<and> bt \<noteq> ''accel''
        \<longrightarrow> read_block sim f bt pt
            = Inr (if bt = ''id'' then Series ''id'' []
                   else DataFrame (block_columns bt) [] [], sim1))"
proof -
  define sim0 where "sim0 = header_fields f (swap sim1) sim"
  from rh have s1: "sim1 = file_structure sim0"
    unfolding sim0_def by (rule read_header_Inr)
  from markers_from_file_check [OF fc order bs present nz] have
    lead: "unpack_I (swap sim)
             (f_read f (block_skip (block_sizes sim1) (take order block_keys)) 4) = Inr sz"
    and trail: "unpack_I (swap sim)
             (f_read f (block_skip (block_sizes sim1) (take order block_keys) + 4 + sz) 4)
            = Inr sz"
    by (simp_all add: sw)
  note at_seek = zero_particles_at_seek_offset [OF rh sw bs order lead]
  show ?thesis
  proof (intro conjI impI)
    assume "fst (block_domain sim1 bt) pt = None"
    with at_seek [of pt] show "read_block sim f bt pt = Inl KeyError" by blast
  next
    assume a: "fst (block_domain sim1 bt) pt = Some 0 \<and> bt \<noteq> ''accel''"
    then have "bt \<noteq> ''header''" by (auto simp: block_domain_header)
    with bs present have "0 < total_number sim0"
      unfolding s1 by (rule present_total_positive)
    from id_markers_from_file_check [OF fc [unfolded s1] this] obtain szi where
      "block_sizes sim1 ''id'' = Some szi"
      "unpack_I (swap sim)
           (f_read f (block_skip (block_sizes sim1) (take 3 block_keys)) 4) = Inr szi"
      "unpack_I (swap sim)
           (f_read f (block_skip (block_sizes sim1) (take 3 block_keys) + 4 + szi) 4) = Inr szi"
      unfolding s1 [symmetric] sw by blast
    with a trail at_seek [of pt szi]
    show "read_block sim f bt pt
            = Inr (if bt = ''id'' then Series ''id'' []
                   else DataFrame (block_columns bt) [] [], sim1)"
      by blast
  qed
qed

theorem C5_zero_particles_witness:
  "read_header sim_gas1 file_gas1 = Inr sim_gas1
   \<and> file_check sim_gas1 file_gas1 = Inr ()
   \<and> block_sizes sim_gas1 ''pos'' = Some 12 \<and> index_of block_keys ''pos'' = Some 1
   \<and> map (block_sizes sim_gas1) (take 1 block_keys) = [Some 256]
   \<and> fst (block_domain sim_gas1 ''pos'') Halo = Some 0
   \<and> read_block sim_gas1 file_gas1 ''pos'' Halo
       = Inr (DataFrame [''x'', ''y'', ''z''] [] [], sim_gas1)
   \<and> block_sizes sim_gas1 ''rho'' = Some 4 \<and> index_of block_keys ''rho'' = Some 6
   \<and> map (block_sizes sim_gas1) (take 6 block_keys)
       = [Some 256, Some 12, Some 12, Some 4, Some 4, Some 4]
   \<and> fst (block_domain sim_gas1 ''rho'') Halo = None
   \<and> read_block sim_gas1 file_gas1 ''rho'' Halo = Inl KeyError"
proof -
  have k: "index_of block_keys ''pos'' = Some 1" "index_of block_keys ''rho'' = Some 6"
    by (simp_all add: block_keys_def)
  have nz: "\<forall>k \<in> set (take 1 block_keys). block_sizes sim_gas1 k \<noteq> Some 0"
    "\<forall>k \<in> set (take 6 block_keys). block_sizes sim_gas1 k \<noteq> Some 0"
    by (simp_all add: block_keys_def block_sizes_gas1)
  have d: "fst (block_domain sim_gas1 ''pos'') Halo = Some 0 \<and> ''pos'' \<noteq> ''accel''"
    "fst (block_domain sim_gas1 ''rho'') Halo = None"
    by (simp_all add: block_domain_def sim_gas1_fields)
  have p12: "(0::nat) < 12" and p4: "(0::nat) < 4" by simp_all
  have "read_block sim_gas1 file_gas1 ''pos'' Halo
       = Inr (DataFrame [''x'', ''y'', ''z''] [] [], sim_gas1)"
    using C5_zero_particles [OF read_header_file_gas1 refl file_check_gas1 block_sizes_gas1(2)
        p12 k(1) nz(1), of Halo, THEN conjunct2, rule_format, OF d(1)]
    by (simp add: block_columns_def)
  moreover have "read_block sim_gas1 file_gas1 ''rho'' Halo = Inl KeyError"
    by (rule C5_zero_particles [OF read_header_file_gas1 refl file_check_gas1
        block_sizes_gas1(7) p4 k(2) nz(2), of Halo, THEN conjunct1, rule_format, OF d(2)])
  moreover have "map (block_sizes sim_gas1) (take 1 block_keys) = [Some 256]"
    "map (block_sizes sim_gas1) (take 6 block_keys)
       = [Some 256, Some 12, Some 12, Some 4, Some 4, Some 4]"
    by (simp_all add: block_keys_def block_sizes_gas1)
  ultimately show ?thesis
    using read_header_file_gas1 file_check_gas1 k d by (simp add: block_sizes_gas1)
qed

text \<open>
  The claim as stated fails for a particle type outside the domain of the block: in the
  snapshot of one gas particle, which passes the check of the file, the block \<open>u\<close> is
  present and there is no halo particle, and reading \<open>u\<close> for the halo type raises
  \<open>KeyError\<close>.
\<close>

theorem C5_outside_domain_counterexample:
  "file_check sim_gas1 file_gas1 = Inr ()
   \<and> block_sizes sim_gas1 ''u'' = Some 4
   \<and> particle_numbers sim_gas1 Halo = 0
   \<and> read_block sim_gas1 file_gas1 ''u'' Halo = Inl KeyError"
proof -
  have "read_payload sim_gas1 (CHR ''<'') file_gas1 ''u'' Halo = Inl KeyError"
    by (simp add: payload_defs block_sizes_gas1 length_file_gas1 sim_gas1_fields)
       (simp add: file_gas1_def f_read_def length_hdr_gas1 record_bytes_def le32_def
          decode_nat_def)
  then have "read_block sim_gas1 file_gas1 ''u'' Halo = Inl KeyError"
    by (simp add: read_block_def read_array_def read_header_file_gas1 sim_gas1_fields)
  then show ?thesis
    using file_check_gas1 by (simp add: block_sizes_gas1 sim_gas1_fields)
qed

text \<open>
  Claim C1. For a header that declares 100 gas, 50 halo and 10 star particles and no
  other, with wide identifiers off and the flags \<open>cooling\<close>, \<open>sfr\<close>, \<open>stellar_age\<close> and
  \<open>metals\<close> set, the block sizes are 1920 bytes for \<open>pos\<close>, 640 for \<open>id\<close>, 400 each for
  \<open>u\<close>, \<open>rho\<close>, \<open>hsml\<close>, \<open>ne\<close>, \<open>nh\<close> and \<open>sfr\<close>, 40 for \<open>age\<close> and 5280 for
  \<open>metals\<close>. The slice of \<open>pos\<close> for the stars starts 150 rows of 12 bytes into the
  payload and is 10 rows long; what \<open>read_block\<close> returns for it has the columns x, y, z
  and exactly 10 rows of 3 values, decoded from the 120 bytes at that place (the payload
  starts at byte 268 of the file). The read succeeds on every file that passes the check
  of the file, when the handle has the byte order of the file.
\<close>

theorem C1_scenario:
  assumes rh: "read_header sim f = Inr sim1"
    and n: "particle_numbers sim1 Gas = 100" "particle_numbers sim1 Halo = 50"
      "particle_numbers sim1 Disk = 0" "particle_numbers sim1 Bulge = 0"
      "particle_numbers sim1 Stars = 10" "particle_numbers sim1 Bndry = 0"
    and fl: "\<not> use_longids sim1" "flags_cooling sim1 \<noteq> 0" "flags_sfr sim1 \<noteq> 0"
      "flags_stellar_age sim1 \<noteq> 0" "flags_metals sim1 \<noteq> 0"
  shows "block_sizes sim1 ''pos'' = Some 1920 \<and> block_sizes sim1 ''id'' = Some 640
    \<and> block_sizes sim1 ''u'' = Some 400 \<and> block_sizes sim1 ''rho'' = Some 400
    \<and> block_sizes sim1 ''hsml'' = Some 400 \<and> block_sizes sim1 ''ne'' = Some 400
    \<and> block_sizes sim1 ''nh'' = Some 400 \<and> block_sizes sim1 ''sfr'' = Some 400
    \<and> block_sizes sim1 ''age'' = Some 40 \<and> block_sizes sim1 ''metals'' = Some 5280
    \<and> compute_offset sim1 ''pos'' Stars = Inr (150 * 12, 10 * 12, 0)
    \<and> (read_block sim f ''pos'' Stars = Inr (fr, sim') \<longrightarrow>
         frame_columns fr = [''x'', ''y'', ''z'']
       \<and> frame_rows fr
           = chunks 3 (map (decode_cell (swap sim) Dt_f4)
                        (chunks 4 (f_read f (264 + 4 + 150 * 12) (10 * 12))))
       \<and> map length (frame_rows fr) = replicate 10 3)
    \<and> (file_check sim1 f = Inr () \<and> swap sim = swap sim1 \<longrightarrow>
         (\<exists>fr. read_block sim f ''pos'' Stars = Inr (fr, sim1)))"
proof -
  define sim0 where "sim0 = header_fields f (swap sim1) sim"
  from rh have s1: "sim1 = file_structure sim0"
    unfolding sim0_def by (rule read_header_Inr)
  from n have n0: "particle_numbers sim0 Gas = 100" "particle_numbers sim0 Halo = 50"
      "particle_numbers sim0 Disk = 0" "particle_numbers sim0 Bulge = 0"
      "particle_numbers sim0 Stars = 10" "particle_numbers sim0 Bndry = 0"
    by (simp_all add: s1)
  then have tot: "total_number sim0 = 160"
    by (simp add: total_number_def particle_keys_def)
  have fl0: "\<not> use_longids sim0" "flags_cooling sim0 \<noteq> 0" "flags_sfr sim0 \<noteq> 0"
      "flags_stellar_age sim0 \<noteq> 0" "flags_metals sim0 \<noteq> 0"
    using fl by (simp_all add: s1 file_structure_def Let_def split: prod.splits)
  have sizes: "block_sizes sim1 ''pos'' = Some 1920 \<and> block_sizes sim1 ''id'' = Some 640
    \<and> block_sizes sim1 ''u'' = Some 400 \<and> block_sizes sim1 ''rho'' = Some 400
    \<and> block_sizes sim1 ''hsml'' = Some 400 \<and> block_sizes sim1 ''ne'' = Some 400
    \<and> block_sizes sim1 ''nh'' = Some 400 \<and> block_sizes sim1 ''sfr'' = Some 400
    \<and> block_sizes sim1 ''age'' = Some 40 \<and> block_sizes sim1 ''metals'' = Some 5280"
    unfolding s1 by (simp add: block_sizes_lookup tot n0 fl0)
  have co: "compute_offset sim1 ''pos'' Stars = Inr (1800, 120, 0)"
    by (simp add: compute_offset_def block_domain_def particle_keys_def sum_present_def n)
  have skip: "block_skip (block_sizes sim1) (take 1 block_keys) = 264"
    unfolding s1 by (simp add: block_keys_def block_skip_def block_sizes_lookup)
  have op: "index_of block_keys ''pos'' = Some 1" and oi: "index_of block_keys ''id'' = Some 3"
    by (simp_all add: block_keys_def)
  have rows: "frame_columns fr = [''x'', ''y'', ''z'']
       \<and> frame_rows fr
           = chunks 3 (map (decode_cell (swap sim) Dt_f4) (chunks 4 (f_read f 2068 120)))
       \<and> map length (frame_rows fr) = replicate 10 3"
    if rb: "read_block sim f ''pos'' Stars = Inr (fr, sim')"
  proof -
    from rb obtain arr s1' where ra: "read_array sim f ''pos'' Stars = Inr (arr, s1')"
      using read_block_Inr by blast
    from rb ra obtain ids :: ndarray where
      df: "mk_DataFrame arr (block_columns ''pos'') (elems ids) = Inr fr"
      by (auto simp: read_block_def bind_err_eq_Inr)
    from read_array_Inr [OF ra] rh obtain data block where
      s1': "s1' = sim1"
      and rp: "read_payload sim1 (swap sim) f ''pos'' Stars = Inr data"
      and fs: "fromstring (swap sim) (block_dtype sim1 ''pos'') data = Inr block"
      and sh: "set_shape block (block_shape sim1 ''pos'' Stars block) = Inr arr"
      by auto
    from read_payload_Inr [OF rp] co skip op have
      data: "data = f_read f 2068 120" and len: "length data = 120"
      by auto
    from fromstring_Inr [OF fs] have
      block: "block = map (decode_cell (swap sim) Dt_f4) (chunks 4 data)"
      by (simp add: block_dtype_def itemsize_def)
    from chunks_exact [of 4 data 30] len have "length (chunks 4 data) = 30" by simp
    then have lb: "length block = 30" by (simp add: block)
    from set_shape_Inr [OF sh] have arr: "arr = \<lparr>shape = [10, 3], elems = block\<rparr>"
      by (simp add: block_shape_def n)
    from mk_DataFrame_Inr [OF df [unfolded arr]] have
      fr: "fr = DataFrame (block_columns ''pos'') (elems ids) (chunks 3 block)"
      by simp
    from map_length_chunks [of 3 block 10] lb have
      "map length (chunks 3 block) = replicate 10 3"
      by simp
    then show ?thesis
      by (simp add: fr block data block_columns_def)
  qed
  have ok: "\<exists>fr. read_block sim f ''pos'' Stars = Inr (fr, sim1)"
    if fc: "file_check sim1 f = Inr ()" and sw: "swap sim = swap sim1"
  proof -
    have bp: "block_sizes sim1 ''pos'' = Some 1920" and bi: "block_sizes sim1 ''id'' = Some 640"
      using sizes by simp_all
    have nzp: "\<forall>k \<in> set (take 1 block_keys). block_sizes sim1 k \<noteq> Some 0"
      unfolding s1 by (simp add: block_keys_def block_sizes_lookup)
    have nzi: "\<forall>k \<in> set (take 3 block_keys). block_sizes sim1 k \<noteq> Some 0"
      unfolding s1 by (simp add: block_keys_def block_sizes_lookup tot)
    have dp: "fst (block_domain sim1 ''pos'') Stars = Some 10" "snd (block_domain sim1 ''pos'') = 3"
      and di: "fst (block_domain sim1 ''id'') Stars = Some 10" "snd (block_domain sim1 ''id'') = 1"
      using fl by (simp_all add: block_domain_def n)
    from markers_from_file_check [OF fc op bp _ nzp] have
      mp: "unpack_I (swap sim)
             (f_read f (block_skip (block_sizes sim1) (take 1 block_keys)) 4) = Inr 1920"
          "unpack_I (swap sim)
             (f_read f (block_skip (block_sizes sim1) (take 1 block_keys) + 4 + 1920) 4)
            = Inr 1920"
      by (simp_all add: sw)
    from markers_from_file_check [OF fc oi bi _ nzi] have
      mi: "unpack_I (swap sim1)
             (f_read f (block_skip (block_sizes sim1) (take 3 block_keys)) 4) = Inr 640"
          "unpack_I (swap sim1)
             (f_read f (block_skip (block_sizes sim1) (take 3 block_keys) + 4 + 640) 4)
            = Inr 640"
      by simp_all
    from read_array_full [OF rh bp op dp(1) mp] obtain data where
      rp: "read_payload sim1 (swap sim) f ''pos'' Stars = Inr data" and ld: "length data = 120"
      by (auto simp: dp)
    from chunks_exact [of 4 data 30] ld have l30: "length (chunks 4 data) = 30" by simp
    have ra: "read_array sim f ''pos'' Stars
        = Inr (\<lparr>shape = [10, 3],
                elems = map (decode_cell (swap sim) Dt_f4) (chunks 4 data)\<rparr>, sim1)"
      using rh rp ld l30
      by (simp add: read_array_def fromstring_def block_dtype_def itemsize_def set_shape_def
          block_shape_def n)
    have rh1: "read_header sim1 f = Inr sim1" using rh by (rule read_header_again)
    from read_array_full [OF rh1 bi oi di(1) mi] obtain idata where
      rpi: "read_payload sim1 (swap sim1) f ''id'' Stars = Inr idata"
      and li: "length idata = 40"
      by (auto simp: di)
    from chunks_exact [of 4 idata 10] li have l10: "length (chunks 4 idata) = 10" by simp
    have rai: "read_array sim1 f ''id'' Stars
        = Inr (\<lparr>shape = [10],
                elems = map (decode_cell (swap sim1) Dt_u4) (chunks 4 idata)\<rparr>, sim1)"
      using rh1 rpi li l10 fl
      by (simp add: read_array_def fromstring_def block_dtype_def itemsize_def set_shape_def
          block_shape_def)
    show ?thesis
      using ra rai l10
      by (simp add: read_block_def mk_DataFrame_def block_columns_def)
  qed
  have C: "compute_offset sim1 ''pos'' Stars = Inr (150 * 12, 10 * 12, 0)"
    using co by simp
  have R: "read_block sim f ''pos'' Stars = Inr (fr, sim') \<longrightarrow>
         frame_columns fr = [''x'', ''y'', ''z'']
       \<and> frame_rows fr
           = chunks 3 (map (decode_cell (swap sim) Dt_f4)
                        (chunks 4 (f_read f (264 + 4 + 150 * 12) (10 * 12))))
       \<and> map length (frame_rows fr) = replicate 10 3"
  proof
    assume "read_block sim f ''pos'' Stars = Inr (fr, sim')"
    from rows [OF this] show "frame_columns fr = [''x'', ''y'', ''z'']
       \<and> frame_rows fr
           = chunks 3 (map (decode_cell (swap sim) Dt_f4)
                        (chunks 4 (f_read f (264 + 4 + 150 * 12) (10 * 12))))
       \<and> map length (frame_rows fr) = replicate 10 3"
      by auto
  qed
  have K: "file_check sim1 f = Inr () \<and> swap sim = swap sim1 \<longrightarrow>
         (\<exists>fr. read_block sim f ''pos'' Stars = Inr (fr, sim1))"
    using ok by blast
  show ?thesis
    by (intro conjI C R K) (use sizes in simp_all)
qed

theorem C1_scenario_witness:
  "read_header sim_c1 file_c1 = Inr sim_c1
   \<and> map (particle_numbers sim_c1) particle_keys = [100, 50, 0, 0, 10, 0]
   \<and> \<not> use_longids sim_c1 \<and> flags_cooling sim_c1 = 1 \<and> flags_sfr sim_c1 = 1
   \<and> flags_stellar_age sim_c1 = 1 \<and> flags_metals sim_c1 = 1
   \<and> file_check sim_c1 file_c1 = Inr ()
   \<and> map (block_sizes sim_c1)
         [''pos'', ''id'', ''u'', ''rho'', ''hsml'', ''ne'', ''nh'', ''sfr'', ''age'', ''metals'']
       = [Some 1920, Some 640, Some 400, Some 400, Some 400, Some 400, Some 400, Some 400,
          Some 40, Some 5280]
   \<and> compute_offset sim_c1 ''pos'' Stars = Inr (1800, 120, 0)
   \<and> read_block sim_c1 file_c1 ''pos'' Stars
       = Inr (DataFrame [''x'', ''y'', ''z''] (replicate 10 (U4 0))
                (replicate 10 (replicate 3 (F4 0x01010101))), sim_c1)
   \<and> f_read file_c1 (264 + 4 + 150 * 12) (10 * 12) = replicate 120 1
   \<and> replicate 10 (replicate 3 (F4 0x01010101))
       = chunks 3 (map (decode_cell (CHR ''<'') Dt_f4)
                    (chunks 4 (f_read file_c1 (264 + 4 + 150 * 12) (10 * 12))))
   \<and> map length (replicate 10 (replicate 3 (F4 0x01010101))) = replicate 10 3"
proof -
  let ?fr = "DataFrame [''x'', ''y'', ''z''] (replicate 10 (U4 0))
                (replicate 10 (replicate 3 (F4 0x01010101)))"
  have n: "particle_numbers sim_c1 Gas = 100" "particle_numbers sim_c1 Halo = 50"
      "particle_numbers sim_c1 Disk = 0" "particle_numbers sim_c1 Bulge = 0"
      "particle_numbers sim_c1 Stars = 10" "particle_numbers sim_c1 Bndry = 0"
    and fl: "\<not> use_longids sim_c1" "flags_cooling sim_c1 \<noteq> 0" "flags_sfr sim_c1 \<noteq> 0"
      "flags_stellar_age sim_c1 \<noteq> 0" "flags_metals sim_c1 \<noteq> 0"
    by (simp_all add: sim_c1_fields)
  note T = C1_scenario [OF read_header_file_c1 n fl, of ?fr sim_c1]
  have sizes: "map (block_sizes sim_c1)
         [''pos'', ''id'', ''u'', ''rho'', ''hsml'', ''ne'', ''nh'', ''sfr'', ''age'', ''metals'']
       = [Some 1920, Some 640, Some 400, Some 400, Some 400, Some 400, Some 400, Some 400,
          Some 40, Some 5280]"
    using T by simp
  have co: "compute_offset sim_c1 ''pos'' Stars = Inr (1800, 120, 0)"
    using T by simp
  from T read_block_pos_c1 have rows:
    "frame_rows ?fr = chunks 3 (map (decode_cell (swap sim_c1) Dt_f4)
                        (chunks 4 (f_read file_c1 (264 + 4 + 150 * 12) (10 * 12))))"
    "map length (frame_rows ?fr) = replicate 10 3"
    by blast+
  have pay: "f_read file_c1 (264 + 4 + 150 * 12) (10 * 12) = replicate 120 1"
    by (simp add: file_c1_def f_read_def length_hdr_c1 record_bytes_def le32_def)
  show ?thesis
    using read_header_file_c1 file_check_c1 sizes co read_block_pos_c1 rows pay
    by (simp add: sim_c1_fields particle_keys_def)
qed

section \<open>A FOF catalogue without groups\<close>

lemma fromfile_i4_pos: "fromfile_i4 f pos = Inr (v, p) \<Longrightarrow> p = pos + 4 \<and> pos + 4 \<le> length f"
  by (auto simp: fromfile_i4_def split: if_splits)

lemma fromfile_i4_cases:
  "(\<exists>v. fromfile_i4 f pos = Inr (v, pos + 4) \<and> pos + 4 \<le> length f) \<or>
   (fromfile_i4 f pos = Inl IndexError \<and> length f < pos + 4)"
  by (auto simp: fromfile_i4_def)

lemma load_fragments_no_groups:
  assumes "\<forall>i \<in> set is. fromfile_i4 (files i) 0 = Inr (0, 4)"
  shows "(\<exists>i \<in> set is. length (files i) < 8) \<and> load_fragments files is (ngs, nis, tot, val) = Inl IndexError \<or>
         (\<forall>i \<in> set is. 8 \<le> length (files i)) \<and>
         (\<exists>ngs' nis'. load_fragments files is (ngs, nis, tot, val) = Inr (ngs', nis', tot, val))"
  using assms
proof (induction "is" arbitrary: ngs nis)
  case Nil
  then show ?case by simp
next
  case (Cons i rest)
  from Cons.prems have ng: "fromfile_i4 (files i) 0 = Inr (0, 4)"
    and rest: "\<forall>i \<in> set rest. fromfile_i4 (files i) 0 = Inr (0, 4)" by simp_all
  from fromfile_i4_cases [of "files i" 4] show ?case
  proof
    assume "\<exists>v. fromfile_i4 (files i) 4 = Inr (v, 4 + 4) \<and> 4 + 4 \<le> length (files i)"
    then obtain v where v: "fromfile_i4 (files i) 4 = Inr (v, 8)" and len: "8 \<le> length (files i)"
      by auto
    have step: "load_fragments files (i # rest) (ngs, nis, tot, val) =
                load_fragments files rest (ngs @ [0], nis @ [v], tot, val)"
      by (simp add: ng v)
    from Cons.IH [OF rest, of "ngs @ [0]" "nis @ [v]"] show ?thesis
      unfolding step using len by auto
  next
    assume "fromfile_i4 (files i) 4 = Inl IndexError \<and> length (files i) < 4 + 4"
    then show ?thesis by (simp add: ng)
  qed
qed

lemma set_attributes_empty: "keys \<noteq> [] \<Longrightarrow> set_attributes Map.empty keys attrs = Inl KeyError"
  by (cases keys) simp_all

lemma load_catalogue_no_groups:
  assumes "\<forall>i < nat ntask. fromfile_i4 (files i) 0 = Inr (0, 4)"
  shows "load_catalogue ntask files =
           Inl (if \<forall>i < nat ntask. 8 \<le> length (files i) then KeyError else IndexError)"
proof -
  from assms have "\<forall>i \<in> set [0..<nat ntask]. fromfile_i4 (files i) 0 = Inr (0, 4)" by simp
  from load_fragments_no_groups [OF this, of "[]" "[]" 0 Map.empty]
  show ?thesis
    by (fastforce simp: load_catalogue_def set_attributes_empty array_keys_def not_le)
qed

text \<open>
  Claim C10. If every fragment of a FOF catalogue declares a local group count of zero,
  the constructor raises an error instead of producing a group table of zero rows:
  \<open>_load_catalogue\<close> never assigns an array to \<open>value\<close>, so the final
  \<open>setattr(self, key, value[key])\<close> raises \<open>KeyError\<close> at the first key (and the read of
  \<open>nids\<close> raises \<open>IndexError\<close> before that when a fragment is shorter than its two
  counts). The constructor calls \<open>_load_catalogue\<close> with the \<open>ntask\<close> of the header of
  fragment 0 and the exception leaves it.
\<close>

theorem C10_no_groups_raises:
  assumes "\<forall>i < nat ntask. fromfile_i4 (files i) 0 = Inr (0, 4)"
  shows "(\<exists>e. load_catalogue ntask files = Inl e) \<and>
         ((\<forall>i < nat ntask. 8 \<le> length (files i)) \<longrightarrow> load_catalogue ntask files = Inl KeyError) \<and>
         (Fof_read_header (files 0) = Inr (totngroups, ntask) \<longrightarrow>
            (\<exists>e. Fof_init_catalogue files = Inl e))"
  using load_catalogue_no_groups [OF assms]
  by (simp add: Fof_init_catalogue_def)

text \<open>
  The catalogue \<open>fof_empty_files\<close> of two fragments, each declaring zero groups: the
  loader and the constructor raise \<open>KeyError\<close>.
\<close>

lemma fof_empty_reads:
  "fromfile_i4 (fof_empty_files i) 0 = Inr (0, 4)"
  "fromfile_i4 (fof_empty_files i) 8 = Inr (0, 12)"
  "fromfile_i4 (fof_empty_files i) 12 = Inr (2, 16)"
  "length (fof_empty_files i) = 16"
  by (simp_all add: fromfile_i4_def fof_empty_files_def le32_def f_read_def to_signed32_def)

theorem C10_no_groups_raises_witness:
  "fromfile_i4 (fof_empty_files 0) 0 = Inr (0, 4) \<and>
   fromfile_i4 (fof_empty_files 1) 0 = Inr (0, 4) \<and>
   Fof_read_header (fof_empty_files 0) = Inr (0, 2) \<and>
   load_catalogue 2 fof_empty_files = Inl KeyError \<and>
   Fof_init_catalogue fof_empty_files = Inl KeyError"
  using C10_no_groups_raises [of 2 fof_empty_files 0]
  by (simp add: fof_empty_reads Fof_read_header_def Fof_init_catalogue_def)


section \<open>The identifier runs of the subhalos\<close>


lemma slice_subhalos_IndexError:
  assumes "\<exists>sub \<in> set subs. \<not> (sub < length suboffset \<and> sub < length sublen)"
  shows "slice_subhalos all_ids suboffset sublen subs = Inl IndexError"
  using assms
proof (induction subs)
  case Nil then show ?case by simp
next
  case (Cons sub subs)
  show ?case
  proof (cases "sub < length suboffset \<and> sub < length sublen")
    case True
    with Cons.prems have "\<exists>sub \<in> set subs. \<not> (sub < length suboffset \<and> sub < length sublen)"
      by auto
    from Cons.IH [OF this] True show ?thesis by (simp add: Let_def)
  next
    case False then show ?thesis by auto
  qed
qed








lemma length_le64 [simp]: "length (le64 n) = 8"
  by (simp add: le64_def le32_def)




end
